theory Spec2Isabelle
  imports Complex_Main
begin

section \<open>Armadillo matrices and cubes\<close>

text \<open>
  The source works on Armadillo's \<^verbatim>\<open>dmat\<close>, \<^verbatim>\<open>dcolvec\<close> and \<^verbatim>\<open>dcube\<close>. A matrix carries
  its two dimensions and its column-major storage, kept here as the list of its columns.
  The entries are \<^verbatim>\<open>double\<close> in the source and exact reals here: rounding is outside the
  model, the shape of every computation and every size check is inside it.
\<close>

record mat =
  n_rows :: nat
  n_cols :: nat
  cols :: "real list list"

text \<open>\<^verbatim>\<open>M(i, j)\<close>, for an index inside the matrix.\<close>

definition elem :: "mat \<Rightarrow> nat \<Rightarrow> nat \<Rightarrow> real" where
  "elem M i j = cols M ! j ! i"

text \<open>The \<open>r\<close> by \<open>c\<close> matrix with entry \<open>f i j\<close> at row \<open>i\<close>, column \<open>j\<close>.\<close>

definition mk_mat :: "nat \<Rightarrow> nat \<Rightarrow> (nat \<Rightarrow> nat \<Rightarrow> real) \<Rightarrow> mat" where
  "mk_mat r c f = \<lparr>n_rows = r, n_cols = c, cols = map (\<lambda>j. map (\<lambda>i. f i j) [0..<r]) [0..<c]\<rparr>"

record cube =
  cn_rows :: nat
  cn_cols :: nat
  slices :: "mat list"

definition n_slices :: "cube \<Rightarrow> nat" where
  "n_slices C = length (slices C)"

text \<open>
  What a call can raise. With Armadillo's checks active (its default configuration, the
  source does not switch them off) an operation on operands of incompatible sizes throws
  \<^verbatim>\<open>std::logic_error\<close>, an index outside an object throws a bounds error, and \<^verbatim>\<open>pinv\<close>
  throws \<^verbatim>\<open>std::runtime_error\<close> when its decomposition fails. Reading through a row
  iterator that has left the matrix is undefined in C++; the model reports it as
  \<open>IteratorPastEnd\<close>. \<open>AllocationFailed\<close> is the source's own error message.
\<close>

datatype error =
    IncompatibleDimensions
  | IndexOutOfBounds
  | IteratorPastEnd
  | PinvFailed
  | AllocationFailed

definition bind_res :: "'e + 'a \<Rightarrow> ('a \<Rightarrow> 'e + 'b) \<Rightarrow> 'e + 'b" where
  "bind_res m f = (case m of Inl e \<Rightarrow> Inl e | Inr x \<Rightarrow> f x)"

text \<open>A \<^verbatim>\<open>for\<close> loop over the given index values, left at the first exception.\<close>

fun for_loop :: "nat list \<Rightarrow> (nat \<Rightarrow> 's \<Rightarrow> 'e + 's) \<Rightarrow> 's \<Rightarrow> 'e + 's" where
  "for_loop [] body s = Inr s"
| "for_loop (i # is) body s = bind_res (body i s) (for_loop is body)"

subsection \<open>Unchecked entrywise operations\<close>

definition zeros :: "nat \<Rightarrow> nat \<Rightarrow> mat" where
  "zeros r c = mk_mat r c (\<lambda>i j. 0)"

definition trans :: "mat \<Rightarrow> mat" where
  "trans A = mk_mat (n_cols A) (n_rows A) (\<lambda>i j. elem A j i)"

definition mmul :: "mat \<Rightarrow> mat \<Rightarrow> mat" where
  "mmul A B = mk_mat (n_rows A) (n_cols B) (\<lambda>i j. \<Sum>k<n_cols A. elem A i k * elem B k j)"

definition madd :: "mat \<Rightarrow> mat \<Rightarrow> mat" where
  "madd A B = mk_mat (n_rows A) (n_cols A) (\<lambda>i j. elem A i j + elem B i j)"

definition msub :: "mat \<Rightarrow> mat \<Rightarrow> mat" where
  "msub A B = mk_mat (n_rows A) (n_cols A) (\<lambda>i j. elem A i j - elem B i j)"

definition smult :: "real \<Rightarrow> mat \<Rightarrow> mat" where
  "smult a A = mk_mat (n_rows A) (n_cols A) (\<lambda>i j. a * elem A i j)"

definition neg :: "mat \<Rightarrow> mat" where
  "neg A = mk_mat (n_rows A) (n_cols A) (\<lambda>i j. - elem A i j)"

text \<open>The upper triangle reflected into the lower one.\<close>

definition upper_reflected :: "mat \<Rightarrow> mat" where
  "upper_reflected A = mk_mat (n_rows A) (n_cols A) (\<lambda>i j. if i \<le> j then elem A i j else elem A j i)"

definition symmetric :: "mat \<Rightarrow> bool" where
  "symmetric A = (n_rows A = n_cols A \<and>
     list_all (\<lambda>i. list_all (\<lambda>j. elem A i j = elem A j i) [0..<n_cols A]) [0..<n_rows A])"

subsection \<open>The checked operations of the library\<close>

text \<open>\<^verbatim>\<open>A * B\<close>\<close>

definition times :: "mat \<Rightarrow> mat \<Rightarrow> error + mat" where
  "times A B = (if n_cols A = n_rows B then Inr (mmul A B) else Inl IncompatibleDimensions)"

text \<open>\<^verbatim>\<open>A * B * C\<close>\<close>

definition times3 :: "mat \<Rightarrow> mat \<Rightarrow> mat \<Rightarrow> error + mat" where
  "times3 A B C = bind_res (times A B) (\<lambda>AB. times AB C)"

text \<open>\<^verbatim>\<open>A + B\<close>, also the check of \<^verbatim>\<open>A += B\<close>\<close>

definition plus :: "mat \<Rightarrow> mat \<Rightarrow> error + mat" where
  "plus A B = (if n_rows A = n_rows B \<and> n_cols A = n_cols B then Inr (madd A B)
               else Inl IncompatibleDimensions)"

text \<open>\<^verbatim>\<open>A - B\<close>\<close>

definition minus :: "mat \<Rightarrow> mat \<Rightarrow> error + mat" where
  "minus A B = (if n_rows A = n_rows B \<and> n_cols A = n_cols B then Inr (msub A B)
                else Inl IncompatibleDimensions)"

text \<open>\<^verbatim>\<open>symmatu(A)\<close>: the matrix must be square.\<close>

definition symmatu :: "mat \<Rightarrow> error + mat" where
  "symmatu A = (if n_rows A = n_cols A then Inr (upper_reflected A) else Inl IncompatibleDimensions)"

text \<open>\<^verbatim>\<open>M.col(j)\<close>, read\<close>

definition col :: "mat \<Rightarrow> nat \<Rightarrow> error + mat" where
  "col M j = (if j < n_cols M then Inr (mk_mat (n_rows M) 1 (\<lambda>i _. elem M i j))
              else Inl IndexOutOfBounds)"

text \<open>\<^verbatim>\<open>M.col(j) = v\<close>\<close>

definition set_col :: "mat \<Rightarrow> nat \<Rightarrow> mat \<Rightarrow> error + mat" where
  "set_col M j v =
     (if \<not> j < n_cols M then Inl IndexOutOfBounds
      else if n_rows v = n_rows M \<and> n_cols v = 1
        then Inr (mk_mat (n_rows M) (n_cols M) (\<lambda>i c. if c = j then elem v i 0 else elem M i c))
      else Inl IncompatibleDimensions)"

text \<open>\<^verbatim>\<open>M.tail_cols(1)\<close>\<close>

definition tail_col :: "mat \<Rightarrow> error + mat" where
  "tail_col M = (if 1 \<le> n_cols M then col M (n_cols M - 1) else Inl IndexOutOfBounds)"

text \<open>\<^verbatim>\<open>C.slice(i)\<close>, read\<close>

definition slice :: "cube \<Rightarrow> nat \<Rightarrow> error + mat" where
  "slice C i = (if i < n_slices C then Inr (slices C ! i) else Inl IndexOutOfBounds)"

text \<open>Slice \<open>i\<close> overwritten in place.\<close>

definition put_slice :: "cube \<Rightarrow> nat \<Rightarrow> mat \<Rightarrow> cube" where
  "put_slice C i M = C\<lparr>slices := (slices C)[i := M]\<rparr>"

text \<open>\<^verbatim>\<open>C.slice(i) = M\<close>: a slice has the fixed size of its cube.\<close>

definition set_slice :: "cube \<Rightarrow> nat \<Rightarrow> mat \<Rightarrow> error + cube" where
  "set_slice C i M =
     (if \<not> i < n_slices C then Inl IndexOutOfBounds
      else if n_rows M = cn_rows C \<and> n_cols M = cn_cols C then Inr (put_slice C i M)
      else Inl IncompatibleDimensions)"

text \<open>
  \<^verbatim>\<open>*row\<close> for the iterator \<^verbatim>\<open>M.begin_row(j)\<close> advanced \<open>m\<close> times: the iterator walks
  along row \<open>j\<close> and goes on to the next row after the last column.
\<close>

definition row_iterator_deref :: "mat \<Rightarrow> nat \<Rightarrow> nat \<Rightarrow> error + real" where
  "row_iterator_deref M j m =
     (if n_cols M = 0 then Inl IteratorPastEnd
      else if j + m div n_cols M < n_rows M
        then Inr (elem M (j + m div n_cols M) (m mod n_cols M))
      else Inl IteratorPastEnd)"

text \<open>\<^verbatim>\<open>M.begin_row(j)\<close>\<close>

definition begin_row :: "mat \<Rightarrow> nat \<Rightarrow> error + unit" where
  "begin_row M j = (if j < n_rows M then Inr () else Inl IndexOutOfBounds)"

subsection \<open>The pseudo-inverse\<close>

text \<open>
  Modelled from the spec: \<^verbatim>\<open>pinv\<close> belongs to the Armadillo library, which is not part of
  the repository. The functions of the program take it as a parameter (see \<open>host\<close>
  below); where a concrete value is needed, the exact Moore-Penrose pseudo-inverse stands
  for it, computed column by column after Greville: with \<open>X\<close> the pseudo-inverse of the
  first columns \<open>A\<close> and \<open>a\<close> the next column, \<open>d = X a\<close>, \<open>c = a - A d\<close>, the new last row
  is \<open>b = c\<^sup>T / (c\<^sup>T c)\<close> when \<open>c\<close> is not zero and \<open>b = d\<^sup>T X / (1 + d\<^sup>T d)\<close> otherwise,
  above it stands \<open>X - d b\<close>.
\<close>

definition is_zero :: "mat \<Rightarrow> bool" where
  "is_zero M = list_all (list_all (\<lambda>x. x = 0)) (cols M)"

definition append_col :: "mat \<Rightarrow> mat \<Rightarrow> mat" where
  "append_col A a = mk_mat (n_rows A) (Suc (n_cols A)) (\<lambda>i j. if j < n_cols A then elem A i j else elem a i 0)"

definition append_row :: "mat \<Rightarrow> mat \<Rightarrow> mat" where
  "append_row X b = mk_mat (Suc (n_rows X)) (n_cols X) (\<lambda>i j. if i < n_rows X then elem X i j else elem b 0 j)"

definition greville_row :: "mat \<Rightarrow> mat \<Rightarrow> mat \<Rightarrow> mat" where
  "greville_row X d c =
     (if is_zero c then smult (1 / (1 + elem (mmul (trans d) d) 0 0)) (mmul (trans d) X)
      else smult (1 / elem (mmul (trans c) c) 0 0) (trans c))"

definition greville_extend :: "mat \<Rightarrow> mat \<Rightarrow> mat \<Rightarrow> mat \<Rightarrow> mat \<Rightarrow> mat \<times> mat" where
  "greville_extend A X a d b = (append_col A a, append_row (msub X (mmul d b)) b)"

definition greville_residual :: "mat \<Rightarrow> mat \<Rightarrow> mat \<Rightarrow> mat \<Rightarrow> mat \<times> mat" where
  "greville_residual A X a d = greville_extend A X a d (greville_row X d (msub a (mmul A d)))"

definition greville_step :: "mat \<times> mat \<Rightarrow> mat \<Rightarrow> mat \<times> mat" where
  "greville_step AX a = greville_residual (fst AX) (snd AX) a (mmul (snd AX) a)"

definition pinv_exact :: "mat \<Rightarrow> mat" where
  "pinv_exact M =
     snd (foldl greville_step (zeros (n_rows M) 0, zeros 0 (n_rows M))
            (map (\<lambda>j. mk_mat (n_rows M) 1 (\<lambda>i _. elem M i j)) [0..<n_cols M]))"

text \<open>The four Penrose equations, which determine the pseudo-inverse.\<close>

definition penrose :: "mat \<Rightarrow> mat \<Rightarrow> bool" where
  "penrose A X =
     (n_rows X = n_cols A \<and> n_cols X = n_rows A \<and>
      mmul (mmul A X) A = A \<and> mmul (mmul X A) X = X \<and>
      trans (mmul A X) = mmul A X \<and> trans (mmul X A) = mmul X A)"

section \<open>The MEX function\<close>

text \<open>
  Each statement of the source is one definition below. Within a statement the operands
  are fetched first (bounds checks), the expression is evaluated next (size checks of the
  products, of \<^verbatim>\<open>symmatu\<close>, of sums and differences) and the result is stored last (size check
  of the target); the first check that fails ends the call.

  What the function takes from its surroundings: the library's \<^verbatim>\<open>pinv\<close>, which returns the
  pseudo-inverse or throws (\<open>None\<close>), and MATLAB's \<^verbatim>\<open>mxCreateUninitNumericArray\<close>, which
  returns storage for an array of the given dimensions or \<^verbatim>\<open>NULL\<close> (\<open>False\<close>).
\<close>

record host =
  pinv :: "mat \<Rightarrow> mat option"
  mxCreateUninitNumericArray :: "nat list \<Rightarrow> bool"

text \<open>The nine required parameters, in the order of \<^verbatim>\<open>inputArrays\<close>.\<close>

record inputs =
  augA :: cube
  augB :: cube
  augQ :: cube
  augR :: cube
  transitionMatrix :: mat
  terminalK :: mat
  horizonLength :: int
  Qref :: mat
  refWeightings :: mat

text \<open>
  The two output arrays. Their memory is uninitialised when created; the loop writes the
  gain \<^verbatim>\<open>L.slice(j)\<close> and the feedforward column \<^verbatim>\<open>feedforward.col(j)\<close> of stage \<open>k\<close> as whole
  blocks, so each array is a partial map from \<open>(k, j)\<close> to the block written there.
\<close>

record outputs =
  dimsL :: "nat list"
  gains :: "nat \<times> nat \<rightharpoonup> mat"
  dims :: "nat list"
  feedforwards :: "nat \<times> nat \<rightharpoonup> mat"

text \<open>The variables that live across the iterations of the stage loop.\<close>

record state =
  K_k :: cube
  sigma_k :: mat
  out :: outputs

text \<open>The per-mode temporaries of one stage (source lines 81 to 85).\<close>

record temporaries =
  QAKA :: cube
  RBKB :: cube
  BKA :: cube
  Asigma :: mat
  Bsigma :: mat

text \<open>The accumulators of one current mode (source lines 101 to 105).\<close>

record accumulators =
  P1 :: mat
  P2 :: mat
  P3 :: mat
  s1 :: mat
  s2 :: mat

definition numModes :: "inputs \<Rightarrow> nat" where
  "numModes inp = n_slices (augA inp)"

text \<open>\<^verbatim>\<open>static_cast<size_t>(horizonLength)\<close>\<close>

definition size_t_of_int :: "int \<Rightarrow> nat" where
  "size_t_of_int h = nat (h mod 2 ^ 64)"

definition call_pinv :: "host \<Rightarrow> mat \<Rightarrow> error + mat" where
  "call_pinv env M = (case pinv env M of None \<Rightarrow> Inl PinvFailed | Some X \<Rightarrow> Inr X)"

text \<open>
  A cube or matrix declared with its size only. Its memory is uninitialised in the source
  and zero here; the source assigns every slice and column before it reads it.
\<close>

definition uninit_cube :: "nat \<Rightarrow> nat \<Rightarrow> nat \<Rightarrow> cube" where
  "uninit_cube r c n = \<lparr>cn_rows = r, cn_cols = c, slices = replicate n (zeros r c)\<rparr>"

text \<open>Source lines 61 and 62: \<^verbatim>\<open>dcube K_k(size(augA)); K_k.each_slice() = terminalK;\<close>\<close>

definition initial_K :: "inputs \<Rightarrow> error + cube" where
  "initial_K inp =
     (if n_rows (terminalK inp) = cn_rows (augA inp) \<and> n_cols (terminalK inp) = cn_cols (augA inp)
      then Inr \<lparr>cn_rows = cn_rows (augA inp), cn_cols = cn_cols (augA inp),
                slices = replicate (numModes inp) (terminalK inp)\<rparr>
      else Inl IncompatibleDimensions)"

text \<open>Source lines 65 and 66: every column of \<open>sigma_k\<close> is the last column of \<open>refWeightings\<close>.\<close>

definition initial_sigma :: "inputs \<Rightarrow> error + mat" where
  "initial_sigma inp =
     bind_res (tail_col (refWeightings inp))
       (\<lambda>v. Inr (mk_mat (n_rows (refWeightings inp)) (numModes inp) (\<lambda>i j. elem v i 0)))"

subsection \<open>The loop over the next modes (source lines 87 to 93)\<close>

text \<open>\<^verbatim>\<open>QAKA.slice(i) += symmatu(augA.slice(i).t() * K_prev.slice(i) * augA.slice(i));\<close>\<close>

definition update_QAKA :: "inputs \<Rightarrow> cube \<Rightarrow> nat \<Rightarrow> cube \<Rightarrow> error + cube" where
  "update_QAKA inp K_prev i Q =
     bind_res (slice (augA inp) i) (\<lambda>A.
     bind_res (slice K_prev i) (\<lambda>K.
     bind_res (slice Q i) (\<lambda>Qi.
     bind_res (times3 (trans A) K A) (\<lambda>AKA.
     bind_res (symmatu AKA) (\<lambda>S.
     bind_res (plus Qi S) (\<lambda>Qi'. Inr (put_slice Q i Qi')))))))"

text \<open>\<^verbatim>\<open>RBKB.slice(i) += symmatu(augB.slice(i).t() * K_prev.slice(i) * augB.slice(i));\<close>\<close>

definition update_RBKB :: "inputs \<Rightarrow> cube \<Rightarrow> nat \<Rightarrow> cube \<Rightarrow> error + cube" where
  "update_RBKB inp K_prev i R =
     bind_res (slice (augB inp) i) (\<lambda>B.
     bind_res (slice K_prev i) (\<lambda>K.
     bind_res (slice R i) (\<lambda>Ri.
     bind_res (times3 (trans B) K B) (\<lambda>BKB.
     bind_res (symmatu BKB) (\<lambda>S.
     bind_res (plus Ri S) (\<lambda>Ri'. Inr (put_slice R i Ri')))))))"

text \<open>\<^verbatim>\<open>BKA.slice(i) = augB.slice(i).t() * K_prev.slice(i) * augA.slice(i);\<close>\<close>

definition update_BKA :: "inputs \<Rightarrow> cube \<Rightarrow> nat \<Rightarrow> cube \<Rightarrow> error + cube" where
  "update_BKA inp K_prev i C =
     bind_res (slice (augB inp) i) (\<lambda>B.
     bind_res (slice K_prev i) (\<lambda>K.
     bind_res (slice (augA inp) i) (\<lambda>A.
     bind_res (times3 (trans B) K A) (\<lambda>M. set_slice C i M))))"

text \<open>\<^verbatim>\<open>Asigma.col(i) = augA.slice(i).t() * sigma_prev.col(i);\<close>\<close>

definition update_Asigma :: "inputs \<Rightarrow> mat \<Rightarrow> nat \<Rightarrow> mat \<Rightarrow> error + mat" where
  "update_Asigma inp sigma_prev i M =
     bind_res (slice (augA inp) i) (\<lambda>A.
     bind_res (col sigma_prev i) (\<lambda>v.
     bind_res (times (trans A) v) (\<lambda>w. set_col M i w)))"

text \<open>\<^verbatim>\<open>Bsigma.col(i) = augB.slice(i).t() * sigma_prev.col(i);\<close>\<close>

definition update_Bsigma :: "inputs \<Rightarrow> mat \<Rightarrow> nat \<Rightarrow> mat \<Rightarrow> error + mat" where
  "update_Bsigma inp sigma_prev i M =
     bind_res (slice (augB inp) i) (\<lambda>B.
     bind_res (col sigma_prev i) (\<lambda>v.
     bind_res (times (trans B) v) (\<lambda>w. set_col M i w)))"

definition next_mode_body :: "inputs \<Rightarrow> cube \<Rightarrow> mat \<Rightarrow> nat \<Rightarrow> temporaries \<Rightarrow> error + temporaries" where
  "next_mode_body inp K_prev sigma_prev i t =
     bind_res (update_QAKA inp K_prev i (QAKA t)) (\<lambda>Q.
     bind_res (update_RBKB inp K_prev i (RBKB t)) (\<lambda>R.
     bind_res (update_BKA inp K_prev i (BKA t)) (\<lambda>C.
     bind_res (update_Asigma inp sigma_prev i (Asigma t)) (\<lambda>As.
     bind_res (update_Bsigma inp sigma_prev i (Bsigma t)) (\<lambda>Bs.
       Inr \<lparr>QAKA = Q, RBKB = R, BKA = C, Asigma = As, Bsigma = Bs\<rparr>)))))"

text \<open>Source lines 81 to 93.\<close>

definition next_mode_loop :: "inputs \<Rightarrow> cube \<Rightarrow> mat \<Rightarrow> error + temporaries" where
  "next_mode_loop inp K_prev sigma_prev =
     for_loop [0..<numModes inp] (next_mode_body inp K_prev sigma_prev)
       \<lparr>QAKA = augQ inp, RBKB = augR inp,
        BKA = uninit_cube (cn_cols (augB inp)) (cn_rows (augA inp)) (numModes inp),
        Asigma = zeros (cn_cols (augA inp)) (numModes inp),
        Bsigma = zeros (cn_cols (augB inp)) (numModes inp)\<rparr>"

subsection \<open>The loop over the current modes (source lines 98 to 118)\<close>

text \<open>\<^verbatim>\<open>P += (*row) * C.slice(m);\<close>\<close>

definition add_scaled_slice :: "mat \<Rightarrow> nat \<Rightarrow> nat \<Rightarrow> cube \<Rightarrow> mat \<Rightarrow> error + mat" where
  "add_scaled_slice T j m C P =
     bind_res (row_iterator_deref T j m) (\<lambda>w.
     bind_res (slice C m) (\<lambda>S. plus P (smult w S)))"

text \<open>\<^verbatim>\<open>s += (*row) * M.col(m);\<close>\<close>

definition add_scaled_col :: "mat \<Rightarrow> nat \<Rightarrow> nat \<Rightarrow> mat \<Rightarrow> mat \<Rightarrow> error + mat" where
  "add_scaled_col T j m M s =
     bind_res (row_iterator_deref T j m) (\<lambda>w.
     bind_res (col M m) (\<lambda>v. plus s (smult w v)))"

text \<open>Source lines 108 to 112.\<close>

definition accumulate_body :: "inputs \<Rightarrow> temporaries \<Rightarrow> nat \<Rightarrow> nat \<Rightarrow> accumulators \<Rightarrow> error + accumulators" where
  "accumulate_body inp t j m a =
     bind_res (add_scaled_slice (transitionMatrix inp) j m (QAKA t) (P1 a)) (\<lambda>p1.
     bind_res (add_scaled_slice (transitionMatrix inp) j m (BKA t) (P2 a)) (\<lambda>p2.
     bind_res (add_scaled_slice (transitionMatrix inp) j m (RBKB t) (P3 a)) (\<lambda>p3.
     bind_res (add_scaled_col (transitionMatrix inp) j m (Asigma t) (s1 a)) (\<lambda>v1.
     bind_res (add_scaled_col (transitionMatrix inp) j m (Bsigma t) (s2 a)) (\<lambda>v2.
       Inr \<lparr>P1 = p1, P2 = p2, P3 = p3, s1 = v1, s2 = v2\<rparr>)))))"

text \<open>
  Source lines 99 to 113. The two vectors are declared with \<^verbatim>\<open>Asigma.n_cols\<close> and
  \<^verbatim>\<open>Bsigma.n_cols\<close> elements, which is the number of modes.
\<close>

definition accumulate :: "inputs \<Rightarrow> temporaries \<Rightarrow> nat \<Rightarrow> error + accumulators" where
  "accumulate inp t j =
     bind_res (begin_row (transitionMatrix inp) j) (\<lambda>_.
       for_loop [0..<numModes inp] (accumulate_body inp t j)
         \<lparr>P1 = zeros (cn_rows (augA inp)) (cn_cols (augA inp)),
          P2 = zeros (cn_cols (augB inp)) (cn_rows (augA inp)),
          P3 = zeros (cn_rows (augR inp)) (cn_cols (augR inp)),
          s1 = zeros (n_cols (Asigma t)) 1,
          s2 = zeros (n_cols (Bsigma t)) 1\<rparr>)"

text \<open>\<^verbatim>\<open>P1 - symmatu(P2.t() * pinv(P3) * P2)\<close>\<close>

definition new_K :: "host \<Rightarrow> accumulators \<Rightarrow> error + mat" where
  "new_K env a =
     bind_res (call_pinv env (P3 a)) (\<lambda>X.
     bind_res (times3 (trans (P2 a)) X (P2 a)) (\<lambda>M.
     bind_res (symmatu M) (\<lambda>S. minus (P1 a) S)))"

text \<open>\<^verbatim>\<open>refWeightings.col(k) + s1 - P2.t() * pinv(P3) * s2\<close>\<close>

definition new_sigma :: "host \<Rightarrow> inputs \<Rightarrow> nat \<Rightarrow> accumulators \<Rightarrow> error + mat" where
  "new_sigma env inp k a =
     bind_res (col (refWeightings inp) k) (\<lambda>r.
     bind_res (plus r (s1 a)) (\<lambda>u.
     bind_res (call_pinv env (P3 a)) (\<lambda>X.
     bind_res (times3 (trans (P2 a)) X (s2 a)) (\<lambda>v. minus u v))))"

text \<open>\<^verbatim>\<open>-pinv(P3) * P2\<close>\<close>

definition gain :: "host \<Rightarrow> accumulators \<Rightarrow> error + mat" where
  "gain env a = bind_res (call_pinv env (P3 a)) (\<lambda>X. times (neg X) (P2 a))"

text \<open>\<^verbatim>\<open>pinv(P3) * s2\<close>\<close>

definition feedforward :: "host \<Rightarrow> accumulators \<Rightarrow> error + mat" where
  "feedforward env a = bind_res (call_pinv env (P3 a)) (\<lambda>X. times X (s2 a))"

text \<open>
  \<^verbatim>\<open>L.slice(j) = G\<close> and \<^verbatim>\<open>feedforward.col(j) = f\<close>, where \<open>L\<close> and \<open>feedforward\<close> are the
  fixed-size views of stage \<open>k\<close> of the two output arrays (source lines 95 and 96).
\<close>

definition write_gain :: "inputs \<Rightarrow> nat \<Rightarrow> nat \<Rightarrow> mat \<Rightarrow> outputs \<Rightarrow> error + outputs" where
  "write_gain inp k j G ou =
     (if \<not> j < numModes inp then Inl IndexOutOfBounds
      else if n_rows G = cn_rows (augR inp) \<and> n_cols G = cn_rows (augA inp)
        then Inr (ou\<lparr>gains := (gains ou)((k, j) \<mapsto> G)\<rparr>)
      else Inl IncompatibleDimensions)"

definition write_feedforward :: "inputs \<Rightarrow> nat \<Rightarrow> nat \<Rightarrow> mat \<Rightarrow> outputs \<Rightarrow> error + outputs" where
  "write_feedforward inp k j f ou =
     (if \<not> j < numModes inp then Inl IndexOutOfBounds
      else if n_rows f = cn_rows (augR inp) \<and> n_cols f = 1
        then Inr (ou\<lparr>feedforwards := (feedforwards ou)((k, j) \<mapsto> f)\<rparr>)
      else Inl IncompatibleDimensions)"

text \<open>
  An exception leaves the loops with the variables as they are at that moment: the left
  summand carries the error and the state reached.
\<close>

definition attempt :: "state \<Rightarrow> error + 'a \<Rightarrow> ('a \<Rightarrow> error \<times> state + state) \<Rightarrow> error \<times> state + state" where
  "attempt s m f = (case m of Inl e \<Rightarrow> Inl (e, s) | Inr x \<Rightarrow> f x)"

text \<open>Source lines 114 to 117, after the accumulators of mode \<open>j\<close> are complete.\<close>

definition store_K :: "host \<Rightarrow> nat \<Rightarrow> accumulators \<Rightarrow> state \<Rightarrow> error \<times> state + state" where
  "store_K env j a s =
     attempt s (new_K env a) (\<lambda>K.
     attempt s (set_slice (K_k s) j K) (\<lambda>C. Inr (s\<lparr>K_k := C\<rparr>)))"

definition store_sigma :: "host \<Rightarrow> inputs \<Rightarrow> nat \<Rightarrow> nat \<Rightarrow> accumulators \<Rightarrow> state \<Rightarrow> error \<times> state + state" where
  "store_sigma env inp k j a s =
     attempt s (new_sigma env inp k a) (\<lambda>v.
     attempt s (set_col (sigma_k s) j v) (\<lambda>M. Inr (s\<lparr>sigma_k := M\<rparr>)))"

definition store_gain :: "host \<Rightarrow> inputs \<Rightarrow> nat \<Rightarrow> nat \<Rightarrow> accumulators \<Rightarrow> state \<Rightarrow> error \<times> state + state" where
  "store_gain env inp k j a s =
     attempt s (gain env a) (\<lambda>G.
     attempt s (write_gain inp k j G (out s)) (\<lambda>ou. Inr (s\<lparr>out := ou\<rparr>)))"

definition store_feedforward :: "host \<Rightarrow> inputs \<Rightarrow> nat \<Rightarrow> nat \<Rightarrow> accumulators \<Rightarrow> state \<Rightarrow> error \<times> state + state" where
  "store_feedforward env inp k j a s =
     attempt s (feedforward env a) (\<lambda>f.
     attempt s (write_feedforward inp k j f (out s)) (\<lambda>ou. Inr (s\<lparr>out := ou\<rparr>)))"

definition current_mode_body :: "host \<Rightarrow> inputs \<Rightarrow> temporaries \<Rightarrow> nat \<Rightarrow> nat \<Rightarrow> state \<Rightarrow> error \<times> state + state" where
  "current_mode_body env inp t k j s =
     attempt s (accumulate inp t j) (\<lambda>a.
     bind_res (store_K env j a s) (\<lambda>s.
     bind_res (store_sigma env inp k j a s) (\<lambda>s.
     bind_res (store_gain env inp k j a s) (\<lambda>s.
       store_feedforward env inp k j a s))))"

subsection \<open>The loop over the stages (source lines 74 to 119)\<close>

text \<open>
  One iteration: \<open>K_prev\<close> and \<open>sigma_prev\<close> are copies of the state on entry, the loop over
  the current modes overwrites \<open>K_k\<close> and \<open>sigma_k\<close> slice by slice.
\<close>

definition stage :: "host \<Rightarrow> inputs \<Rightarrow> nat \<Rightarrow> state \<Rightarrow> error \<times> state + state" where
  "stage env inp k s =
     attempt s (next_mode_loop inp (K_k s) (sigma_k s)) (\<lambda>t.
       for_loop [0..<numModes inp] (current_mode_body env inp t k) s)"

text \<open>\<^verbatim>\<open>for (auto k = horizonLength - 1; k >= 0; --k)\<close>\<close>

definition stage_loop :: "host \<Rightarrow> inputs \<Rightarrow> state \<Rightarrow> error \<times> state + state" where
  "stage_loop env inp s = for_loop (rev [0..<nat (horizonLength inp)]) (stage env inp) s"

text \<open>
  The result of a call: the two output arrays, or an error together with the output arrays
  as far as they were created and written when it was raised.
\<close>

datatype outcome = Returned outputs | Failed error "outputs option"

definition allocate_outputs :: "inputs \<Rightarrow> outputs" where
  "allocate_outputs inp =
     \<lparr>dimsL = [cn_rows (augR inp), cn_rows (augA inp), numModes inp, size_t_of_int (horizonLength inp)],
      gains = Map.empty,
      dims = [cn_rows (augR inp), numModes inp, size_t_of_int (horizonLength inp)],
      feedforwards = Map.empty\<rparr>"

text \<open>The state before the first iteration (source lines 61 to 66).\<close>

definition initial_state :: "inputs \<Rightarrow> error + state" where
  "initial_state inp =
     bind_res (initial_K inp) (\<lambda>K.
     bind_res (initial_sigma inp) (\<lambda>sg.
       Inr \<lparr>K_k = K, sigma_k = sg, out = allocate_outputs inp\<rparr>))"

definition mexFunction :: "host \<Rightarrow> inputs \<Rightarrow> outcome" where
  "mexFunction env inp =
     (if \<not> (mxCreateUninitNumericArray env (dimsL (allocate_outputs inp)) \<and>
             mxCreateUninitNumericArray env (dims (allocate_outputs inp)))
      then Failed AllocationFailed None
      else case initial_state inp of
             Inl e \<Rightarrow> Failed e (Some (allocate_outputs inp))
           | Inr s0 \<Rightarrow>
               (case stage_loop env inp s0 of
                  Inl (e, s) \<Rightarrow> Failed e (Some (out s))
                | Inr s \<Rightarrow> Returned (out s)))"

text \<open>The host with the exact pseudo-inverse and enough memory.\<close>

definition exact_host :: host where
  "exact_host = \<lparr>pinv = (\<lambda>M. Some (pinv_exact M)), mxCreateUninitNumericArray = (\<lambda>_. True)\<rparr>"

section \<open>The quantities of a stage in closed form\<close>

text \<open>
  The quantities of one stage as closed expressions of the inputs and of the value-function
  state \<open>(K, sg)\<close> of the next stage, in the notation of the specification and with the
  symmetrisation of the source. \<open>weighted_sum T j n r c F\<close> is the \<open>r\<close> by \<open>c\<close> matrix
  \<open>\<Sum>m<n. T[j,m] \<cdot> F m\<close>. That the loops of the source compute them is proved below.
\<close>

definition column :: "mat \<Rightarrow> nat \<Rightarrow> mat" where
  "column M j = mk_mat (n_rows M) 1 (\<lambda>i _. elem M i j)"

definition weighted_sum :: "mat \<Rightarrow> nat \<Rightarrow> nat \<Rightarrow> nat \<Rightarrow> nat \<Rightarrow> (nat \<Rightarrow> mat) \<Rightarrow> mat" where
  "weighted_sum T j n r c F = mk_mat r c (\<lambda>a b. \<Sum>m<n. elem T j m * elem (F m) a b)"

definition modeA :: "inputs \<Rightarrow> nat \<Rightarrow> mat" where
  "modeA inp m = slices (augA inp) ! m"

definition modeB :: "inputs \<Rightarrow> nat \<Rightarrow> mat" where
  "modeB inp m = slices (augB inp) ! m"

definition modeQ :: "inputs \<Rightarrow> nat \<Rightarrow> mat" where
  "modeQ inp m = slices (augQ inp) ! m"

definition modeR :: "inputs \<Rightarrow> nat \<Rightarrow> mat" where
  "modeR inp m = slices (augR inp) ! m"

text \<open>\<open>Q[m] + symmatu(A\<^sup>T[m] K[m] A[m])\<close>\<close>

definition QAKA_of :: "inputs \<Rightarrow> cube \<Rightarrow> nat \<Rightarrow> mat" where
  "QAKA_of inp K m =
     madd (modeQ inp m) (upper_reflected (mmul (mmul (trans (modeA inp m)) (slices K ! m)) (modeA inp m)))"

text \<open>\<open>R[m] + symmatu(B\<^sup>T[m] K[m] B[m])\<close>\<close>

definition RBKB_of :: "inputs \<Rightarrow> cube \<Rightarrow> nat \<Rightarrow> mat" where
  "RBKB_of inp K m =
     madd (modeR inp m) (upper_reflected (mmul (mmul (trans (modeB inp m)) (slices K ! m)) (modeB inp m)))"

text \<open>\<open>B\<^sup>T[m] K[m] A[m]\<close>\<close>

definition BKA_of :: "inputs \<Rightarrow> cube \<Rightarrow> nat \<Rightarrow> mat" where
  "BKA_of inp K m = mmul (mmul (trans (modeB inp m)) (slices K ! m)) (modeA inp m)"

text \<open>\<open>A\<^sup>T[m] sg[m]\<close> and \<open>B\<^sup>T[m] sg[m]\<close>\<close>

definition Asigma_of :: "inputs \<Rightarrow> mat \<Rightarrow> nat \<Rightarrow> mat" where
  "Asigma_of inp sg m = mmul (trans (modeA inp m)) (column sg m)"

definition Bsigma_of :: "inputs \<Rightarrow> mat \<Rightarrow> nat \<Rightarrow> mat" where
  "Bsigma_of inp sg m = mmul (trans (modeB inp m)) (column sg m)"

text \<open>The five mixtures of the current mode \<open>j\<close>.\<close>

definition mixture :: "inputs \<Rightarrow> cube \<Rightarrow> mat \<Rightarrow> nat \<Rightarrow> accumulators" where
  "mixture inp K sg j =
     \<lparr>P1 = weighted_sum (transitionMatrix inp) j (numModes inp) (cn_rows (augA inp)) (cn_cols (augA inp))
             (QAKA_of inp K),
      P2 = weighted_sum (transitionMatrix inp) j (numModes inp) (cn_cols (augB inp)) (cn_rows (augA inp))
             (BKA_of inp K),
      P3 = weighted_sum (transitionMatrix inp) j (numModes inp) (cn_rows (augR inp)) (cn_cols (augR inp))
             (RBKB_of inp K),
      s1 = weighted_sum (transitionMatrix inp) j (numModes inp) (cn_cols (augA inp)) 1 (Asigma_of inp sg),
      s2 = weighted_sum (transitionMatrix inp) j (numModes inp) (cn_cols (augB inp)) 1 (Bsigma_of inp sg)\<rparr>"

text \<open>
  What the source computes for the current mode from the five mixtures \<open>a\<close> and the
  pseudo-inverse \<open>X\<close> of \<open>P3 a\<close>: the new \<open>K\<close>, the new \<open>sigma\<close> (with column \<open>k\<close> of the
  reference weightings), the gain and the feedforward term.
\<close>

definition K_formula :: "accumulators \<Rightarrow> mat \<Rightarrow> mat" where
  "K_formula a X = msub (P1 a) (upper_reflected (mmul (mmul (trans (P2 a)) X) (P2 a)))"

definition sigma_formula :: "inputs \<Rightarrow> nat \<Rightarrow> accumulators \<Rightarrow> mat \<Rightarrow> mat" where
  "sigma_formula inp k a X =
     msub (madd (column (refWeightings inp) k) (s1 a)) (mmul (mmul (trans (P2 a)) X) (s2 a))"

definition gain_formula :: "accumulators \<Rightarrow> mat \<Rightarrow> mat" where
  "gain_formula a X = neg (mmul X (P2 a))"

definition feedforward_formula :: "accumulators \<Rightarrow> mat \<Rightarrow> mat" where
  "feedforward_formula a X = mmul X (s2 a)"

text \<open>
  The value-function state of stage \<open>k\<close>: the state of the loop after the iterations
  \<open>horizonLength - 1\<close> down to \<open>k\<close>, if the call gets that far. For \<open>k = horizonLength\<close> it
  is the state before the first iteration.
\<close>

definition value_function :: "host \<Rightarrow> inputs \<Rightarrow> nat \<Rightarrow> state option" where
  "value_function env inp k =
     (case initial_state inp of
        Inl e \<Rightarrow> None
      | Inr s0 \<Rightarrow>
          (case for_loop (rev [k..<nat (horizonLength inp)]) (stage env inp) s0 of
             Inl e \<Rightarrow> None
           | Inr s \<Rightarrow> Some s))"

text \<open>The gain a returned call wrote for stage \<open>k\<close> and mode \<open>j\<close>.\<close>

definition returned_gain :: "outcome \<Rightarrow> nat \<Rightarrow> nat \<Rightarrow> mat option" where
  "returned_gain r k j = (case r of Returned ou \<Rightarrow> gains ou (k, j) | Failed e ou \<Rightarrow> None)"

text \<open>The value-function matrix \<open>K\<close> of stage \<open>k\<close> and mode \<open>j\<close>.\<close>

definition stage_K :: "host \<Rightarrow> inputs \<Rightarrow> nat \<Rightarrow> nat \<Rightarrow> mat option" where
  "stage_K env inp k j = map_option (\<lambda>s. slices (K_k s) ! j) (value_function env inp k)"

subsection \<open>The formulas in the specification's own words\<close>

text \<open>
  The specification symmetrises with \<open>sym(X) = (X + X\<^sup>T) / 2\<close> where the source calls
  \<^verbatim>\<open>symmatu\<close>, and it symmetrises the whole of the new \<open>K\<close>. The definitions below follow
  the specification; they are compared with the source's in the claims.
\<close>

definition sym :: "mat \<Rightarrow> mat" where
  "sym X = mk_mat (n_rows X) (n_cols X) (\<lambda>i j. (elem X i j + elem X j i) / 2)"

definition spec_QAKA :: "inputs \<Rightarrow> cube \<Rightarrow> nat \<Rightarrow> mat" where
  "spec_QAKA inp K m =
     madd (modeQ inp m) (sym (mmul (mmul (trans (modeA inp m)) (slices K ! m)) (modeA inp m)))"

definition spec_RBKB :: "inputs \<Rightarrow> cube \<Rightarrow> nat \<Rightarrow> mat" where
  "spec_RBKB inp K m =
     madd (modeR inp m) (sym (mmul (mmul (trans (modeB inp m)) (slices K ! m)) (modeB inp m)))"

definition spec_mixture :: "inputs \<Rightarrow> cube \<Rightarrow> mat \<Rightarrow> nat \<Rightarrow> accumulators" where
  "spec_mixture inp K sg j =
     \<lparr>P1 = weighted_sum (transitionMatrix inp) j (numModes inp) (cn_rows (augA inp)) (cn_cols (augA inp))
             (spec_QAKA inp K),
      P2 = weighted_sum (transitionMatrix inp) j (numModes inp) (cn_cols (augB inp)) (cn_rows (augA inp))
             (BKA_of inp K),
      P3 = weighted_sum (transitionMatrix inp) j (numModes inp) (cn_rows (augR inp)) (cn_cols (augR inp))
             (spec_RBKB inp K),
      s1 = weighted_sum (transitionMatrix inp) j (numModes inp) (cn_cols (augA inp)) 1 (Asigma_of inp sg),
      s2 = weighted_sum (transitionMatrix inp) j (numModes inp) (cn_cols (augB inp)) 1 (Bsigma_of inp sg)\<rparr>"

text \<open>\<open>L[k,j] = -pinv(P3) P2\<close> with the specification's \<open>P3\<close>.\<close>

definition spec_gain :: "host \<Rightarrow> inputs \<Rightarrow> nat \<Rightarrow> nat \<Rightarrow> mat option" where
  "spec_gain env inp k j =
     (case value_function env inp (Suc k) of
        None \<Rightarrow> None
      | Some s \<Rightarrow>
          map_option (\<lambda>X. neg (mmul X (P2 (spec_mixture inp (K_k s) (sigma_k s) j))))
            (pinv env (P3 (spec_mixture inp (K_k s) (sigma_k s) j))))"

text \<open>\<open>K[j] = sym(P1 - P2\<^sup>T pinv(P3) P2)\<close>\<close>

definition spec_K :: "host \<Rightarrow> inputs \<Rightarrow> nat \<Rightarrow> nat \<Rightarrow> mat option" where
  "spec_K env inp k j =
     (case value_function env inp (Suc k) of
        None \<Rightarrow> None
      | Some s \<Rightarrow>
          map_option
            (\<lambda>X. sym (msub (P1 (spec_mixture inp (K_k s) (sigma_k s) j))
                    (mmul (mmul (trans (P2 (spec_mixture inp (K_k s) (sigma_k s) j))) X)
                       (P2 (spec_mixture inp (K_k s) (sigma_k s) j)))))
            (pinv env (P3 (spec_mixture inp (K_k s) (sigma_k s) j))))"

subsection \<open>A horizon longer by one stage\<close>

text \<open>
  The reference weightings with one more column \<open>w\<close> in front, and the inputs of the same
  system with the horizon longer by one and the reference sequence extended at the front.
\<close>

definition prepend_column :: "mat \<Rightarrow> mat \<Rightarrow> mat" where
  "prepend_column w W =
     mk_mat (n_rows W) (Suc (n_cols W)) (\<lambda>i j. if j = 0 then elem w i 0 else elem W i (j - 1))"

definition longer_horizon :: "inputs \<Rightarrow> mat \<Rightarrow> inputs" where
  "longer_horizon inp w =
     inp\<lparr>horizonLength := horizonLength inp + 1,
         refWeightings := prepend_column w (refWeightings inp)\<rparr>"

text \<open>
  The output arrays of the longer horizon read at the same distance from the terminal
  stage: stage \<open>k\<close> of the shorter horizon is stage \<open>k + 1\<close> of the longer one.
\<close>

definition drop_first_stage :: "inputs \<Rightarrow> outputs \<Rightarrow> outputs" where
  "drop_first_stage inp ou =
     \<lparr>dimsL = dimsL (allocate_outputs inp),
      gains = (\<lambda>(k, j). gains ou (Suc k, j)),
      dims = dims (allocate_outputs inp),
      feedforwards = (\<lambda>(k, j). feedforwards ou (Suc k, j))\<rparr>"

definition shorter_view :: "inputs \<Rightarrow> state \<Rightarrow> state" where
  "shorter_view inp s = s\<lparr>out := drop_first_stage inp (out s)\<rparr>"

subsection \<open>The standard single-mode recursion\<close>

text \<open>
  The finite-horizon linear-quadratic tracking recursion for one mode, as the textbooks
  write it: with \<open>S = R + B\<^sup>T K B\<close> and \<open>X = pinv(S)\<close> the gain is \<open>-X B\<^sup>T K A\<close>, the
  feedforward \<open>X B\<^sup>T sigma\<close>, the new \<open>K\<close> is \<open>Q + A\<^sup>T K A - (B\<^sup>T K A)\<^sup>T X (B\<^sup>T K A)\<close> and the
  new \<open>sigma\<close> is \<open>r + A\<^sup>T sigma - (B\<^sup>T K A)\<^sup>T X B\<^sup>T sigma\<close> for the reference column \<open>r\<close>.
\<close>

definition riccati_gain :: "host \<Rightarrow> mat \<Rightarrow> mat \<Rightarrow> mat \<Rightarrow> mat \<Rightarrow> mat option" where
  "riccati_gain env A B R K =
     map_option (\<lambda>X. neg (mmul X (mmul (mmul (trans B) K) A)))
       (pinv env (madd R (mmul (mmul (trans B) K) B)))"

definition riccati_feedforward :: "host \<Rightarrow> mat \<Rightarrow> mat \<Rightarrow> mat \<Rightarrow> mat \<Rightarrow> mat option" where
  "riccati_feedforward env B R K sg =
     map_option (\<lambda>X. mmul X (mmul (trans B) sg))
       (pinv env (madd R (mmul (mmul (trans B) K) B)))"

definition riccati_K :: "host \<Rightarrow> mat \<Rightarrow> mat \<Rightarrow> mat \<Rightarrow> mat \<Rightarrow> mat \<Rightarrow> mat option" where
  "riccati_K env A B Q R K =
     map_option
       (\<lambda>X. msub (madd Q (mmul (mmul (trans A) K) A))
          (mmul (mmul (trans (mmul (mmul (trans B) K) A)) X) (mmul (mmul (trans B) K) A)))
       (pinv env (madd R (mmul (mmul (trans B) K) B)))"

definition riccati_sigma :: "host \<Rightarrow> mat \<Rightarrow> mat \<Rightarrow> mat \<Rightarrow> mat \<Rightarrow> mat \<Rightarrow> mat \<Rightarrow> mat option" where
  "riccati_sigma env A B R K sg r =
     map_option
       (\<lambda>X. msub (madd r (mmul (trans A) sg))
          (mmul (mmul (trans (mmul (mmul (trans B) K) A)) X) (mmul (trans B) sg)))
       (pinv env (madd R (mmul (mmul (trans B) K) B)))"

section \<open>Example inputs\<close>

definition mat11 :: "real \<Rightarrow> mat" where
  "mat11 x = \<lparr>n_rows = 1, n_cols = 1, cols = [[x]]\<rparr>"

text \<open>The 2 by 2 matrix with rows \<open>(a, b)\<close> and \<open>(c, d)\<close>.\<close>

definition mat22 :: "real \<Rightarrow> real \<Rightarrow> real \<Rightarrow> real \<Rightarrow> mat" where
  "mat22 a b c d = \<lparr>n_rows = 2, n_cols = 2, cols = [[a, c], [b, d]]\<rparr>"

definition one_mode :: "mat \<Rightarrow> cube" where
  "one_mode M = \<lparr>cn_rows = n_rows M, cn_cols = n_cols M, slices = [M]\<rparr>"

definition two_modes :: "mat \<Rightarrow> mat \<Rightarrow> cube" where
  "two_modes M N = \<lparr>cn_rows = n_rows M, cn_cols = n_cols M, slices = [M, N]\<rparr>"

text \<open>
  The scalar system of the specification's single-mode test, \<open>A = B = Q = R = 1\<close>,
  terminal \<open>K = 1\<close>, horizon 2, with the reference weightings \<open>(1, 2, 4)\<close>.
\<close>

definition scalar_example :: inputs where
  "scalar_example =
     \<lparr>augA = one_mode (mat11 1), augB = one_mode (mat11 1), augQ = one_mode (mat11 1),
      augR = one_mode (mat11 1), transitionMatrix = mat11 1, terminalK = mat11 1,
      horizonLength = 2, Qref = mat11 0,
      refWeightings = \<lparr>n_rows = 1, n_cols = 3, cols = [[1], [2], [4]]\<rparr>\<rparr>"

definition scalar_example_outputs :: outputs where
  "scalar_example_outputs =
     \<lparr>dimsL = [1, 1, 1, 2],
      gains = [(1, 0) \<mapsto> mat11 (- (1 / 2)), (0, 0) \<mapsto> mat11 (- (3 / 5))],
      dims = [1, 1, 2],
      feedforwards = [(1, 0) \<mapsto> mat11 2, (0, 0) \<mapsto> mat11 (8 / 5)]\<rparr>"

text \<open>
  Two modes, two states, two inputs, one stage; the terminal cost is not symmetric.
\<close>

definition asymmetric_terminal_example :: inputs where
  "asymmetric_terminal_example =
     \<lparr>augA = two_modes (mat22 1 0 0 1) (mat22 1 0 0 1),
      augB = two_modes (mat22 1 0 0 1) (mat22 1 0 0 1),
      augQ = two_modes (mat22 0 0 0 0) (mat22 0 0 0 0),
      augR = two_modes (mat22 0 0 0 0) (mat22 0 0 0 0),
      transitionMatrix = mat22 1 0 0 1, terminalK = mat22 0 1 0 0,
      horizonLength = 1, Qref = mat22 0 0 0 0, refWeightings = mat22 0 0 0 0\<rparr>"

text \<open>
  Two modes, two states, two inputs, one stage; the state cost \<open>Q\<close> is not symmetric, the
  terminal cost is zero.
\<close>

definition asymmetric_Q_example :: inputs where
  "asymmetric_Q_example =
     \<lparr>augA = two_modes (mat22 1 0 0 1) (mat22 1 0 0 1),
      augB = two_modes (mat22 1 0 0 1) (mat22 1 0 0 1),
      augQ = two_modes (mat22 0 1 0 0) (mat22 0 1 0 0),
      augR = two_modes (mat22 1 0 0 1) (mat22 1 0 0 1),
      transitionMatrix = mat22 1 0 0 1, terminalK = mat22 0 0 0 0,
      horizonLength = 1, Qref = mat22 0 0 0 0, refWeightings = mat22 0 0 0 0\<rparr>"

text \<open>
  The scalar example with a 2 by 2 input cost \<open>R\<close>, while \<open>B\<close> has one column.
\<close>

definition mismatched_R_example :: inputs where
  "mismatched_R_example = scalar_example\<lparr>augR := one_mode (mat22 1 0 0 1)\<rparr>"

text \<open>
  One mode, two states, one input, one stage: \<open>A = Q = I\<close>, \<open>B = (1; 0)\<close>, \<open>R = 1\<close>, the
  transition matrix \<open>(1)\<close>, terminal cost \<open>I\<close>, three columns of reference weightings.
  Every dimension is as the preconditions ask.
\<close>

definition two_state_example :: inputs where
  "two_state_example =
     \<lparr>augA = one_mode (mat22 1 0 0 1),
      augB = one_mode \<lparr>n_rows = 2, n_cols = 1, cols = [[1, 0]]\<rparr>,
      augQ = one_mode (mat22 1 0 0 1),
      augR = one_mode (mat11 1),
      transitionMatrix = mat11 1, terminalK = mat22 1 0 0 1,
      horizonLength = 1, Qref = mat22 0 0 0 0, refWeightings = mat22 0 0 0 0\<rparr>"

text \<open>The same system with zero input cost and \<open>B = 0\<close>, so that \<open>P3\<close> is the zero matrix.\<close>

definition zero_R_example :: inputs where
  "zero_R_example =
     two_state_example\<lparr>augB := one_mode \<lparr>n_rows = 2, n_cols = 1, cols = [[0, 0]]\<rparr>,
                       augR := one_mode (mat11 0)\<rparr>"

text \<open>The scalar example with zero input cost and no input channel: \<open>P3\<close> is zero.\<close>

definition scalar_zero_R_example :: inputs where
  "scalar_zero_R_example = scalar_example\<lparr>augB := one_mode (mat11 0), augR := one_mode (mat11 0)\<rparr>"

text \<open>
  The scalar example with a 2 by 2 transition matrix, where there is one mode.
\<close>

definition oversized_transition_example :: inputs where
  "oversized_transition_example = scalar_example\<lparr>transitionMatrix := mat22 1 0 0 1\<rparr>"

text \<open>
  The scalar example with two columns of reference weightings for its two stages, one
  fewer than \<open>horizonLength + 1\<close>.
\<close>

definition short_reference_example :: inputs where
  "short_reference_example =
     scalar_example\<lparr>refWeightings := \<lparr>n_rows = 1, n_cols = 2, cols = [[1], [2]]\<rparr>\<rparr>"

text \<open>
  The scalar example with one stage: its three columns of reference weightings are one
  more than \<open>horizonLength + 1\<close>.
\<close>

definition long_reference_example :: inputs where
  "long_reference_example = scalar_example\<lparr>horizonLength := 1\<rparr>"

text \<open>
  Two modes, two states, two inputs, one stage, every matrix the identity; the transition
  matrix has the one row \<open>(1 0)\<close>.
\<close>

definition one_row_transition_example :: inputs where
  "one_row_transition_example =
     \<lparr>augA = two_modes (mat22 1 0 0 1) (mat22 1 0 0 1),
      augB = two_modes (mat22 1 0 0 1) (mat22 1 0 0 1),
      augQ = two_modes (mat22 1 0 0 1) (mat22 1 0 0 1),
      augR = two_modes (mat22 1 0 0 1) (mat22 1 0 0 1),
      transitionMatrix = \<lparr>n_rows = 1, n_cols = 2, cols = [[1], [0]]\<rparr>, terminalK = mat22 1 0 0 1,
      horizonLength = 1, Qref = mat22 0 0 0 0, refWeightings = mat22 0 0 0 0\<rparr>"

text \<open>
  Two modes, two states, two inputs, one stage; the state cost \<open>Q = (2 1; 1 3)\<close> is
  symmetric, the terminal cost \<open>(0 1; 0 0)\<close> is not, and \<open>P3 = (1 1; 1 1)\<close> is singular.
\<close>

definition symmetric_Q_example :: inputs where
  "symmetric_Q_example =
     \<lparr>augA = two_modes (mat22 1 0 0 1) (mat22 1 0 0 1),
      augB = two_modes (mat22 1 0 0 1) (mat22 1 0 0 1),
      augQ = two_modes (mat22 2 1 1 3) (mat22 2 1 1 3),
      augR = two_modes (mat22 1 0 0 1) (mat22 1 0 0 1),
      transitionMatrix = mat22 1 0 0 1, terminalK = mat22 0 1 0 0,
      horizonLength = 1, Qref = mat22 0 0 0 0, refWeightings = mat22 0 0 0 0\<rparr>"

text \<open>
  The same system with two stages and the three reference columns \<open>(1 2)\<close>, \<open>(3 4)\<close>,
  \<open>(5 6)\<close>.
\<close>

definition two_mode_reference_example :: inputs where
  "two_mode_reference_example =
     symmetric_Q_example\<lparr>horizonLength := 2,
       refWeightings := \<lparr>n_rows = 2, n_cols = 3, cols = [[1, 2], [3, 4], [5, 6]]\<rparr>\<rparr>"

section \<open>Basic facts\<close>

lemma elem_mk_mat: "i < r \<Longrightarrow> j < c \<Longrightarrow> elem (mk_mat r c f) i j = f i j"
  by (simp add: elem_def mk_mat_def)

lemma n_rows_mk_mat: "n_rows (mk_mat r c f) = r"
  by (simp add: mk_mat_def)

lemma n_cols_mk_mat: "n_cols (mk_mat r c f) = c"
  by (simp add: mk_mat_def)

lemma mk_mat_cong: "(\<And>i j. i < r \<Longrightarrow> j < c \<Longrightarrow> f i j = g i j) \<Longrightarrow> mk_mat r c f = mk_mat r c g"
  by (simp add: mk_mat_def)

subsection \<open>Exceptions and loops\<close>

lemma bind_res_Inr_iff: "bind_res m f = Inr y \<longleftrightarrow> (\<exists>x. m = Inr x \<and> f x = Inr y)"
  by (cases m) (simp_all add: bind_res_def)

lemma bind_res_Inr: "bind_res (Inr x) f = f x"
  by (simp add: bind_res_def)

lemma bind_res_Inl: "bind_res (Inl e) f = Inl e"
  by (simp add: bind_res_def)

lemma attempt_Inr_iff: "attempt s m f = Inr y \<longleftrightarrow> (\<exists>x. m = Inr x \<and> f x = Inr y)"
  by (cases m) (simp_all add: attempt_def)

lemma for_loop_append: "for_loop (xs @ ys) body s = bind_res (for_loop xs body s) (for_loop ys body)"
proof (induction xs arbitrary: s)
  case Nil
  show ?case by (simp add: bind_res_Inr)
next
  case (Cons i xs)
  show ?case
  proof (cases "body i s")
    case (Inl e)
    then show ?thesis by (simp add: bind_res_Inl)
  next
    case (Inr t)
    then show ?thesis using Cons.IH [of t] by (simp add: bind_res_Inr)
  qed
qed

lemma for_loop_invariant_aux:
  assumes "for_loop xs body s = Inr s'"
    and "P pre s"
    and "\<And>ys i zs t t'. pre @ xs = ys @ i # zs \<Longrightarrow> P ys t \<Longrightarrow> body i t = Inr t' \<Longrightarrow> P (ys @ [i]) t'"
  shows "P (pre @ xs) s'"
  using assms
proof (induction xs arbitrary: s pre)
  case Nil
  then show ?case by simp
next
  case (Cons i xs)
  from Cons.prems(1) obtain t where t: "body i s = Inr t" and rest: "for_loop xs body t = Inr s'"
    by (auto simp: bind_res_Inr_iff)
  have "P (pre @ [i]) t"
    using Cons.prems(3) [of pre i xs s t] Cons.prems(2) t by simp
  moreover have "\<And>ys j zs u u'. (pre @ [i]) @ xs = ys @ j # zs \<Longrightarrow> P ys u \<Longrightarrow> body j u = Inr u' \<Longrightarrow> P (ys @ [j]) u'"
    using Cons.prems(3) by simp
  ultimately have "P ((pre @ [i]) @ xs) s'"
    using Cons.IH [OF rest] by blast
  then show ?case by simp
qed

lemma for_loop_invariant:
  assumes "for_loop xs body s = Inr s'"
    and "P [] s"
    and "\<And>ys i zs t t'. xs = ys @ i # zs \<Longrightarrow> P ys t \<Longrightarrow> body i t = Inr t' \<Longrightarrow> P (ys @ [i]) t'"
  shows "P xs s'"
  using for_loop_invariant_aux [OF assms(1), of P "[]"] assms(2,3) by simp




lemma upt_split: "[0..<n] = ys @ i # zs \<Longrightarrow> ys = [0..<i] \<and> i < n"
proof -
  assume a: "[0..<n] = ys @ i # zs"
  then have len: "length ys < n"
    by (metis add_diff_cancel_left' diff_zero length_append length_upt less_add_Suc1 list.size(4) add_Suc_right)
  have "ys = take (length ys) [0..<n]" using a by simp
  then have ys: "ys = [0..<length ys]" using len by (simp add: take_upt)
  have "[0..<n] ! length ys = i" using a by simp
  then have "i = length ys" using len by simp
  with ys len show ?thesis by simp
qed

lemma times_Inr_iff: "times A B = Inr C \<longleftrightarrow> n_cols A = n_rows B \<and> C = mmul A B"
  by (auto simp: times_def)

lemma times3_Inr_iff:
  "times3 A B C = Inr D \<longleftrightarrow> n_cols A = n_rows B \<and> n_cols B = n_rows C \<and> D = mmul (mmul A B) C"
  by (auto simp: times3_def bind_res_Inr_iff times_Inr_iff mmul_def n_cols_mk_mat)

lemma plus_Inr_iff: "plus A B = Inr C \<longleftrightarrow> n_rows A = n_rows B \<and> n_cols A = n_cols B \<and> C = madd A B"
  by (auto simp: plus_def)

lemma minus_Inr_iff: "minus A B = Inr C \<longleftrightarrow> n_rows A = n_rows B \<and> n_cols A = n_cols B \<and> C = msub A B"
  by (auto simp: minus_def)

lemma symmatu_Inr_iff: "symmatu A = Inr C \<longleftrightarrow> n_rows A = n_cols A \<and> C = upper_reflected A"
  by (auto simp: symmatu_def)

lemma slice_Inr_iff: "slice C i = Inr M \<longleftrightarrow> i < n_slices C \<and> M = slices C ! i"
  by (auto simp: slice_def)

lemma set_slice_Inr_iff:
  "set_slice C i M = Inr D \<longleftrightarrow> i < n_slices C \<and> n_rows M = cn_rows C \<and> n_cols M = cn_cols C \<and> D = put_slice C i M"
  by (auto simp: set_slice_def)


lemma col_Inr_iff: "col M j = Inr v \<longleftrightarrow> j < n_cols M \<and> v = column M j"
  by (auto simp: col_def column_def)

lemma set_col_Inr_iff:
  "set_col M j v = Inr M' \<longleftrightarrow> j < n_cols M \<and> n_rows v = n_rows M \<and> n_cols v = 1 \<and>
     M' = mk_mat (n_rows M) (n_cols M) (\<lambda>i c. if c = j then elem v i 0 else elem M i c)"
  by (auto simp: set_col_def)

lemma call_pinv_Inr_iff: "call_pinv env M = Inr X \<longleftrightarrow> pinv env M = Some X"
  by (simp add: call_pinv_def split: option.splits)

lemma row_iterator_deref_in_row:
  "m < n_cols T \<Longrightarrow> row_iterator_deref T j m = (if j < n_rows T then Inr (elem T j m) else Inl IteratorPastEnd)"
  by (simp add: row_iterator_deref_def)

lemma for_upto_invariant:
  assumes "for_loop [0..<n] body s = Inr s'"
    and "P 0 s"
    and "\<And>i t t'. i < n \<Longrightarrow> P i t \<Longrightarrow> body i t = Inr t' \<Longrightarrow> P (Suc i) t'"
  shows "P n s'"
proof -
  have "P (length [0..<n]) s'"
  proof (rule for_loop_invariant [OF assms(1), of "\<lambda>ys. P (length ys)"])
    show "P (length []) s" using assms(2) by simp
  next
    fix ys i zs t t'
    assume split: "[0..<n] = ys @ i # zs" and inv: "P (length ys) t" and step: "body i t = Inr t'"
    from upt_split [OF split] have "length ys = i" "i < n" by auto
    with assms(3) [of i t t'] inv step show "P (length (ys @ [i])) t'" by simp
  qed
  then show ?thesis by simp
qed

lemma for_down_invariant:
  assumes "for_loop (rev [0..<n]) body s = Inr s'"
    and "P n s"
    and "\<And>k t t'. k < n \<Longrightarrow> P (Suc k) t \<Longrightarrow> body k t = Inr t' \<Longrightarrow> P k t'"
  shows "P 0 s'"
  using assms
proof (induction n arbitrary: s)
  case 0
  then show ?case by simp
next
  case (Suc n)
  from Suc.prems(1) obtain t where t: "body n s = Inr t" and rest: "for_loop (rev [0..<n]) body t = Inr s'"
    by (auto simp: bind_res_Inr_iff)
  have "P n t" using Suc.prems(3) [of n s t] Suc.prems(2) t by simp
  then show ?case using Suc.IH [OF rest] Suc.prems(3) by simp
qed

subsection \<open>The loop over the next modes\<close>

lemma update_QAKA_Inr:
  assumes "update_QAKA inp K i Q = Inr Q'"
  shows "Q' = put_slice Q i (madd (slices Q ! i)
            (upper_reflected (mmul (mmul (trans (modeA inp i)) (slices K ! i)) (modeA inp i))))"
    and "i < n_slices Q"
  using assms
  by (auto simp: update_QAKA_def bind_res_Inr_iff slice_Inr_iff times3_Inr_iff symmatu_Inr_iff
      plus_Inr_iff modeA_def)

lemma update_RBKB_Inr:
  assumes "update_RBKB inp K i R = Inr R'"
  shows "R' = put_slice R i (madd (slices R ! i)
            (upper_reflected (mmul (mmul (trans (modeB inp i)) (slices K ! i)) (modeB inp i))))"
    and "i < n_slices R"
  using assms
  by (auto simp: update_RBKB_def bind_res_Inr_iff slice_Inr_iff times3_Inr_iff symmatu_Inr_iff
      plus_Inr_iff modeB_def)

lemma update_BKA_Inr:
  assumes "update_BKA inp K i C = Inr C'"
  shows "C' = put_slice C i (BKA_of inp K i)" and "i < n_slices C"
  using assms
  by (auto simp: update_BKA_def bind_res_Inr_iff slice_Inr_iff times3_Inr_iff set_slice_Inr_iff
      BKA_of_def modeA_def modeB_def)

lemma update_Asigma_Inr:
  assumes "update_Asigma inp sg i M = Inr M'"
  shows "M' = mk_mat (n_rows M) (n_cols M) (\<lambda>r c. if c = i then elem (Asigma_of inp sg i) r 0 else elem M r c)"
    and "i < n_cols M" and "n_rows (Asigma_of inp sg i) = n_rows M"
  using assms unfolding Asigma_of_def modeA_def
  by (auto simp: update_Asigma_def bind_res_Inr_iff slice_Inr_iff col_Inr_iff times_Inr_iff
      set_col_Inr_iff)

lemma update_Bsigma_Inr:
  assumes "update_Bsigma inp sg i M = Inr M'"
  shows "M' = mk_mat (n_rows M) (n_cols M) (\<lambda>r c. if c = i then elem (Bsigma_of inp sg i) r 0 else elem M r c)"
    and "i < n_cols M" and "n_rows (Bsigma_of inp sg i) = n_rows M"
  using assms unfolding Bsigma_of_def modeB_def
  by (auto simp: update_Bsigma_def bind_res_Inr_iff slice_Inr_iff col_Inr_iff times_Inr_iff
      set_col_Inr_iff)

lemma n_slices_put_slice: "n_slices (put_slice C i M) = n_slices C"
  by (simp add: n_slices_def put_slice_def)

lemma slices_put_slice:
  "i < n_slices C \<Longrightarrow> slices (put_slice C i M) ! m = (if m = i then M else slices C ! m)"
  by (simp add: n_slices_def put_slice_def nth_list_update)

lemma cn_rows_put_slice: "cn_rows (put_slice C i M) = cn_rows C"
  by (simp add: put_slice_def)

lemma cn_cols_put_slice: "cn_cols (put_slice C i M) = cn_cols C"
  by (simp add: put_slice_def)

lemma column_mk_mat: "j < c \<Longrightarrow> column (mk_mat r c f) j = mk_mat r 1 (\<lambda>i _. f i j)"
  unfolding column_def n_rows_mk_mat by (rule mk_mat_cong) (simp add: elem_mk_mat)

lemma Asigma_of_as_mk_mat:
  "Asigma_of inp sg i = mk_mat (n_rows (Asigma_of inp sg i)) 1 (\<lambda>r _. elem (Asigma_of inp sg i) r 0)"
  unfolding Asigma_of_def mmul_def n_rows_mk_mat column_def n_cols_mk_mat
  by (rule mk_mat_cong) (simp add: elem_mk_mat)

lemma Bsigma_of_as_mk_mat:
  "Bsigma_of inp sg i = mk_mat (n_rows (Bsigma_of inp sg i)) 1 (\<lambda>r _. elem (Bsigma_of inp sg i) r 0)"
  unfolding Bsigma_of_def mmul_def n_rows_mk_mat column_def n_cols_mk_mat
  by (rule mk_mat_cong) (simp add: elem_mk_mat)

lemma next_mode_body_Inr:
  assumes "next_mode_body inp K sg i t = Inr t'"
  shows "update_QAKA inp K i (QAKA t) = Inr (QAKA t')"
    and "update_RBKB inp K i (RBKB t) = Inr (RBKB t')"
    and "update_BKA inp K i (BKA t) = Inr (BKA t')"
    and "update_Asigma inp sg i (Asigma t) = Inr (Asigma t')"
    and "update_Bsigma inp sg i (Bsigma t) = Inr (Bsigma t')"
  using assms by (auto simp: next_mode_body_def bind_res_Inr_iff)

lemma next_mode_loop_QAKA:
  assumes "next_mode_loop inp K sg = Inr t" and "m < numModes inp"
  shows "slices (QAKA t) ! m = QAKA_of inp K m"
proof -
  let ?P = "\<lambda>i t. n_slices (QAKA t) = n_slices (augQ inp) \<and>
      (\<forall>m. slices (QAKA t) ! m = (if m < i then QAKA_of inp K m else slices (augQ inp) ! m))"
  have "?P (numModes inp) t"
  proof (rule for_upto_invariant [OF assms(1) [unfolded next_mode_loop_def], of ?P])
    show "?P 0 \<lparr>QAKA = augQ inp, RBKB = augR inp,
        BKA = uninit_cube (cn_cols (augB inp)) (cn_rows (augA inp)) (numModes inp),
        Asigma = zeros (cn_cols (augA inp)) (numModes inp),
        Bsigma = zeros (cn_cols (augB inp)) (numModes inp)\<rparr>"
      by simp
  next
    fix i u u'
    assume i: "i < numModes inp" and inv: "?P i u" and step: "next_mode_body inp K sg i u = Inr u'"
    note upd = update_QAKA_Inr [OF next_mode_body_Inr(1) [OF step]]
    show "?P (Suc i) u'"
      using inv upd(2) unfolding upd(1)
      by (auto simp: n_slices_put_slice slices_put_slice QAKA_of_def modeQ_def less_Suc_eq)
  qed
  with assms(2) show ?thesis by simp
qed

lemma next_mode_loop_RBKB:
  assumes "next_mode_loop inp K sg = Inr t" and "m < numModes inp"
  shows "slices (RBKB t) ! m = RBKB_of inp K m"
proof -
  let ?P = "\<lambda>i t. n_slices (RBKB t) = n_slices (augR inp) \<and>
      (\<forall>m. slices (RBKB t) ! m = (if m < i then RBKB_of inp K m else slices (augR inp) ! m))"
  have "?P (numModes inp) t"
  proof (rule for_upto_invariant [OF assms(1) [unfolded next_mode_loop_def], of ?P])
    show "?P 0 \<lparr>QAKA = augQ inp, RBKB = augR inp,
        BKA = uninit_cube (cn_cols (augB inp)) (cn_rows (augA inp)) (numModes inp),
        Asigma = zeros (cn_cols (augA inp)) (numModes inp),
        Bsigma = zeros (cn_cols (augB inp)) (numModes inp)\<rparr>"
      by simp
  next
    fix i u u'
    assume i: "i < numModes inp" and inv: "?P i u" and step: "next_mode_body inp K sg i u = Inr u'"
    note upd = update_RBKB_Inr [OF next_mode_body_Inr(2) [OF step]]
    show "?P (Suc i) u'"
      using inv upd(2) unfolding upd(1)
      by (auto simp: n_slices_put_slice slices_put_slice RBKB_of_def modeR_def less_Suc_eq)
  qed
  with assms(2) show ?thesis by simp
qed

lemma next_mode_loop_BKA:
  assumes "next_mode_loop inp K sg = Inr t" and "m < numModes inp"
  shows "slices (BKA t) ! m = BKA_of inp K m"
proof -
  let ?P = "\<lambda>i t. \<forall>m<i. slices (BKA t) ! m = BKA_of inp K m"
  have "?P (numModes inp) t"
  proof (rule for_upto_invariant [OF assms(1) [unfolded next_mode_loop_def], of ?P])
    show "?P 0 \<lparr>QAKA = augQ inp, RBKB = augR inp,
        BKA = uninit_cube (cn_cols (augB inp)) (cn_rows (augA inp)) (numModes inp),
        Asigma = zeros (cn_cols (augA inp)) (numModes inp),
        Bsigma = zeros (cn_cols (augB inp)) (numModes inp)\<rparr>"
      by simp
  next
    fix i u u'
    assume i: "i < numModes inp" and inv: "?P i u" and step: "next_mode_body inp K sg i u = Inr u'"
    note upd = update_BKA_Inr [OF next_mode_body_Inr(3) [OF step]]
    show "?P (Suc i) u'"
      using inv upd(2) unfolding upd(1)
      by (auto simp: slices_put_slice less_Suc_eq)
  qed
  with assms(2) show ?thesis by simp
qed

lemma next_mode_loop_Asigma:
  assumes "next_mode_loop inp K sg = Inr t"
  shows "n_rows (Asigma t) = cn_cols (augA inp)" and "n_cols (Asigma t) = numModes inp"
    and "m < numModes inp \<Longrightarrow> column (Asigma t) m = Asigma_of inp sg m"
proof -
  let ?P = "\<lambda>i t. n_rows (Asigma t) = cn_cols (augA inp) \<and> n_cols (Asigma t) = numModes inp \<and>
      (\<forall>m<i. column (Asigma t) m = Asigma_of inp sg m)"
  have "?P (numModes inp) t"
  proof (rule for_upto_invariant [OF assms(1) [unfolded next_mode_loop_def], of ?P])
    show "?P 0 \<lparr>QAKA = augQ inp, RBKB = augR inp,
        BKA = uninit_cube (cn_cols (augB inp)) (cn_rows (augA inp)) (numModes inp),
        Asigma = zeros (cn_cols (augA inp)) (numModes inp),
        Bsigma = zeros (cn_cols (augB inp)) (numModes inp)\<rparr>"
      by (simp add: zeros_def n_rows_mk_mat n_cols_mk_mat)
  next
    fix i u u'
    assume i: "i < numModes inp" and inv: "?P i u" and step: "next_mode_body inp K sg i u = Inr u'"
    note upd = update_Asigma_Inr [OF next_mode_body_Inr(4) [OF step]]
    have dims: "n_rows (Asigma u') = cn_cols (augA inp)" "n_cols (Asigma u') = numModes inp"
      using inv unfolding upd(1) by (simp_all add: n_rows_mk_mat n_cols_mk_mat)
    have "column (Asigma u') m = Asigma_of inp sg m" if m: "m < Suc i" for m
    proof (cases "m = i")
      case True
      have "column (Asigma u') m = mk_mat (n_rows (Asigma u)) 1 (\<lambda>r _. elem (Asigma_of inp sg i) r 0)"
        unfolding upd(1) using upd(2) True by (simp add: column_mk_mat)
      also have "\<dots> = Asigma_of inp sg i"
        using Asigma_of_as_mk_mat [of inp sg i] upd(3) by simp
      finally show ?thesis using True by simp
    next
      case False
      with m have mi: "m < i" by simp
      then have mc: "m < n_cols (Asigma u)" using inv i by simp
      have "column (Asigma u') m = mk_mat (n_rows (Asigma u)) 1 (\<lambda>r _. elem (Asigma u) r m)"
        unfolding upd(1) using mc False by (simp add: column_mk_mat)
      also have "\<dots> = column (Asigma u) m" by (simp add: column_def)
      finally show ?thesis using inv mi by simp
    qed
    with dims show "?P (Suc i) u'" by simp
  qed
  then show "n_rows (Asigma t) = cn_cols (augA inp)" and "n_cols (Asigma t) = numModes inp"
    and "m < numModes inp \<Longrightarrow> column (Asigma t) m = Asigma_of inp sg m"
    by simp_all
qed

lemma next_mode_loop_Bsigma:
  assumes "next_mode_loop inp K sg = Inr t"
  shows "n_rows (Bsigma t) = cn_cols (augB inp)" and "n_cols (Bsigma t) = numModes inp"
    and "m < numModes inp \<Longrightarrow> column (Bsigma t) m = Bsigma_of inp sg m"
proof -
  let ?P = "\<lambda>i t. n_rows (Bsigma t) = cn_cols (augB inp) \<and> n_cols (Bsigma t) = numModes inp \<and>
      (\<forall>m<i. column (Bsigma t) m = Bsigma_of inp sg m)"
  have "?P (numModes inp) t"
  proof (rule for_upto_invariant [OF assms(1) [unfolded next_mode_loop_def], of ?P])
    show "?P 0 \<lparr>QAKA = augQ inp, RBKB = augR inp,
        BKA = uninit_cube (cn_cols (augB inp)) (cn_rows (augA inp)) (numModes inp),
        Asigma = zeros (cn_cols (augA inp)) (numModes inp),
        Bsigma = zeros (cn_cols (augB inp)) (numModes inp)\<rparr>"
      by (simp add: zeros_def n_rows_mk_mat n_cols_mk_mat)
  next
    fix i u u'
    assume i: "i < numModes inp" and inv: "?P i u" and step: "next_mode_body inp K sg i u = Inr u'"
    note upd = update_Bsigma_Inr [OF next_mode_body_Inr(5) [OF step]]
    have dims: "n_rows (Bsigma u') = cn_cols (augB inp)" "n_cols (Bsigma u') = numModes inp"
      using inv unfolding upd(1) by (simp_all add: n_rows_mk_mat n_cols_mk_mat)
    have "column (Bsigma u') m = Bsigma_of inp sg m" if m: "m < Suc i" for m
    proof (cases "m = i")
      case True
      have "column (Bsigma u') m = mk_mat (n_rows (Bsigma u)) 1 (\<lambda>r _. elem (Bsigma_of inp sg i) r 0)"
        unfolding upd(1) using upd(2) True by (simp add: column_mk_mat)
      also have "\<dots> = Bsigma_of inp sg i"
        using Bsigma_of_as_mk_mat [of inp sg i] upd(3) by simp
      finally show ?thesis using True by simp
    next
      case False
      with m have mi: "m < i" by simp
      then have mc: "m < n_cols (Bsigma u)" using inv i by simp
      have "column (Bsigma u') m = mk_mat (n_rows (Bsigma u)) 1 (\<lambda>r _. elem (Bsigma u) r m)"
        unfolding upd(1) using mc False by (simp add: column_mk_mat)
      also have "\<dots> = column (Bsigma u) m" by (simp add: column_def)
      finally show ?thesis using inv mi by simp
    qed
    with dims show "?P (Suc i) u'" by simp
  qed
  then show "n_rows (Bsigma t) = cn_cols (augB inp)" and "n_cols (Bsigma t) = numModes inp"
    and "m < numModes inp \<Longrightarrow> column (Bsigma t) m = Bsigma_of inp sg m"
    by simp_all
qed

subsection \<open>The accumulators are the mixtures\<close>

lemma weighted_sum_0: "weighted_sum T j 0 r c F = zeros r c"
  by (simp add: weighted_sum_def zeros_def)

lemma weighted_sum_Suc:
  assumes "n_rows (F n) = r" and "n_cols (F n) = c"
  shows "madd (weighted_sum T j n r c F) (smult (elem T j n) (F n)) = weighted_sum T j (Suc n) r c F"
  unfolding weighted_sum_def madd_def n_rows_mk_mat n_cols_mk_mat
  by (rule mk_mat_cong) (simp add: elem_mk_mat smult_def assms)

lemma weighted_sum_cong:
  "(\<And>m. m < n \<Longrightarrow> F m = G m) \<Longrightarrow> weighted_sum T j n r c F = weighted_sum T j n r c G"
  by (simp add: weighted_sum_def)

lemma n_rows_weighted_sum: "n_rows (weighted_sum T j n r c F) = r"
  by (simp add: weighted_sum_def n_rows_mk_mat)

lemma n_cols_weighted_sum: "n_cols (weighted_sum T j n r c F) = c"
  by (simp add: weighted_sum_def n_cols_mk_mat)

lemma add_scaled_slice_Inr:
  assumes "add_scaled_slice T j m C P = Inr P'" and "m < n_cols T"
  shows "P' = madd P (smult (elem T j m) (slices C ! m))"
    and "n_rows (slices C ! m) = n_rows P" and "n_cols (slices C ! m) = n_cols P"
  using assms
  by (auto simp: add_scaled_slice_def bind_res_Inr_iff row_iterator_deref_in_row slice_Inr_iff
      plus_Inr_iff smult_def n_rows_mk_mat n_cols_mk_mat split: if_splits)

lemma n_rows_column: "n_rows (column M j) = n_rows M"
  by (simp add: column_def n_rows_mk_mat)

lemma n_cols_column: "n_cols (column M j) = 1"
  by (simp add: column_def n_cols_mk_mat)

lemma add_scaled_col_Inr:
  assumes "add_scaled_col T j m M s = Inr s'" and "m < n_cols T"
  shows "s' = madd s (smult (elem T j m) (column M m))"
    and "n_rows M = n_rows s" and "n_cols s = 1"
  using assms
  by (auto simp: add_scaled_col_def bind_res_Inr_iff row_iterator_deref_in_row col_Inr_iff
      plus_Inr_iff smult_def n_rows_mk_mat n_cols_mk_mat n_rows_column n_cols_column split: if_splits)

lemma accumulate_body_Inr:
  assumes "accumulate_body inp t j m a = Inr a'"
  shows "add_scaled_slice (transitionMatrix inp) j m (QAKA t) (P1 a) = Inr (P1 a')"
    and "add_scaled_slice (transitionMatrix inp) j m (BKA t) (P2 a) = Inr (P2 a')"
    and "add_scaled_slice (transitionMatrix inp) j m (RBKB t) (P3 a) = Inr (P3 a')"
    and "add_scaled_col (transitionMatrix inp) j m (Asigma t) (s1 a) = Inr (s1 a')"
    and "add_scaled_col (transitionMatrix inp) j m (Bsigma t) (s2 a) = Inr (s2 a')"
  using assms by (auto simp: accumulate_body_def bind_res_Inr_iff)

lemma accumulate_loop:
  assumes loop: "for_loop [0..<n] (accumulate_body inp t j) a0 = Inr a"
    and n: "n \<le> n_cols (transitionMatrix inp)"
    and a0: "a0 = \<lparr>P1 = zeros r1 c1, P2 = zeros r2 c2, P3 = zeros r3 c3, s1 = zeros r4 1, s2 = zeros r5 1\<rparr>"
  shows "P1 a = weighted_sum (transitionMatrix inp) j n r1 c1 (\<lambda>m. slices (QAKA t) ! m)"
    and "P2 a = weighted_sum (transitionMatrix inp) j n r2 c2 (\<lambda>m. slices (BKA t) ! m)"
    and "P3 a = weighted_sum (transitionMatrix inp) j n r3 c3 (\<lambda>m. slices (RBKB t) ! m)"
    and "s1 a = weighted_sum (transitionMatrix inp) j n r4 1 (column (Asigma t))"
    and "s2 a = weighted_sum (transitionMatrix inp) j n r5 1 (column (Bsigma t))"
    and "0 < n \<Longrightarrow> n_rows (Asigma t) = r4"
    and "0 < n \<Longrightarrow> n_rows (Bsigma t) = r5"
proof -
  let ?T = "transitionMatrix inp"
  let ?P = "\<lambda>i a.
      P1 a = weighted_sum ?T j i r1 c1 (\<lambda>m. slices (QAKA t) ! m) \<and>
      P2 a = weighted_sum ?T j i r2 c2 (\<lambda>m. slices (BKA t) ! m) \<and>
      P3 a = weighted_sum ?T j i r3 c3 (\<lambda>m. slices (RBKB t) ! m) \<and>
      s1 a = weighted_sum ?T j i r4 1 (column (Asigma t)) \<and>
      s2 a = weighted_sum ?T j i r5 1 (column (Bsigma t)) \<and>
      (0 < i \<longrightarrow> n_rows (Asigma t) = r4 \<and> n_rows (Bsigma t) = r5)"
  have "?P n a"
  proof (rule for_upto_invariant [OF loop, of ?P])
    show "?P 0 a0" by (simp add: a0 weighted_sum_0)
  next
    fix i u u'
    assume i: "i < n" and inv: "?P i u" and step: "accumulate_body inp t j i u = Inr u'"
    from i n have iT: "i < n_cols ?T" by simp
    note b = accumulate_body_Inr [OF step]
    note p1 = add_scaled_slice_Inr [OF b(1) iT]
    note p2 = add_scaled_slice_Inr [OF b(2) iT]
    note p3 = add_scaled_slice_Inr [OF b(3) iT]
    note v1 = add_scaled_col_Inr [OF b(4) iT]
    note v2 = add_scaled_col_Inr [OF b(5) iT]
    have "P1 u' = weighted_sum ?T j (Suc i) r1 c1 (\<lambda>m. slices (QAKA t) ! m)"
      using p1 inv by (simp add: weighted_sum_Suc n_rows_weighted_sum n_cols_weighted_sum)
    moreover have "P2 u' = weighted_sum ?T j (Suc i) r2 c2 (\<lambda>m. slices (BKA t) ! m)"
      using p2 inv by (simp add: weighted_sum_Suc n_rows_weighted_sum n_cols_weighted_sum)
    moreover have "P3 u' = weighted_sum ?T j (Suc i) r3 c3 (\<lambda>m. slices (RBKB t) ! m)"
      using p3 inv by (simp add: weighted_sum_Suc n_rows_weighted_sum n_cols_weighted_sum)
    moreover have "s1 u' = weighted_sum ?T j (Suc i) r4 1 (column (Asigma t))"
      using v1 inv by (simp add: weighted_sum_Suc n_rows_weighted_sum n_cols_weighted_sum
          n_rows_column n_cols_column)
    moreover have "s2 u' = weighted_sum ?T j (Suc i) r5 1 (column (Bsigma t))"
      using v2 inv by (simp add: weighted_sum_Suc n_rows_weighted_sum n_cols_weighted_sum
          n_rows_column n_cols_column)
    moreover have "n_rows (Asigma t) = r4" "n_rows (Bsigma t) = r5"
      using v1(2) v2(2) inv by (simp_all add: n_rows_weighted_sum)
    ultimately show "?P (Suc i) u'" by simp
  qed
  then show "P1 a = weighted_sum (transitionMatrix inp) j n r1 c1 (\<lambda>m. slices (QAKA t) ! m)"
    and "P2 a = weighted_sum (transitionMatrix inp) j n r2 c2 (\<lambda>m. slices (BKA t) ! m)"
    and "P3 a = weighted_sum (transitionMatrix inp) j n r3 c3 (\<lambda>m. slices (RBKB t) ! m)"
    and "s1 a = weighted_sum (transitionMatrix inp) j n r4 1 (column (Asigma t))"
    and "s2 a = weighted_sum (transitionMatrix inp) j n r5 1 (column (Bsigma t))"
    and "0 < n \<Longrightarrow> n_rows (Asigma t) = r4"
    and "0 < n \<Longrightarrow> n_rows (Bsigma t) = r5"
    by simp_all
qed

text \<open>The accumulators of mode j are the mixtures of the specification.\<close>

lemma accumulate_mixture:
  assumes t: "next_mode_loop inp K sg = Inr t"
    and a: "accumulate inp t j = Inr a"
    and cols: "numModes inp \<le> n_cols (transitionMatrix inp)"
    and modes: "0 < numModes inp"
  shows "a = mixture inp K sg j"
    and "numModes inp = cn_cols (augA inp)" and "numModes inp = cn_cols (augB inp)"
proof -
  from a have loop: "for_loop [0..<numModes inp] (accumulate_body inp t j)
         \<lparr>P1 = zeros (cn_rows (augA inp)) (cn_cols (augA inp)),
          P2 = zeros (cn_cols (augB inp)) (cn_rows (augA inp)),
          P3 = zeros (cn_rows (augR inp)) (cn_cols (augR inp)),
          s1 = zeros (n_cols (Asigma t)) 1,
          s2 = zeros (n_cols (Bsigma t)) 1\<rparr> = Inr a"
    by (auto simp: accumulate_def bind_res_Inr_iff)
  note r = accumulate_loop [OF loop cols refl]
  note As = next_mode_loop_Asigma [OF t]
  note Bs = next_mode_loop_Bsigma [OF t]
  show nA: "numModes inp = cn_cols (augA inp)" using r(6) [OF modes] As(1,2) by simp
  show nB: "numModes inp = cn_cols (augB inp)" using r(7) [OF modes] Bs(1,2) by simp
  have "P1 a = P1 (mixture inp K sg j)"
    unfolding r(1) mixture_def using next_mode_loop_QAKA [OF t]
    by (simp cong: weighted_sum_cong)
  moreover have "P2 a = P2 (mixture inp K sg j)"
    unfolding r(2) mixture_def using next_mode_loop_BKA [OF t]
    by (simp cong: weighted_sum_cong)
  moreover have "P3 a = P3 (mixture inp K sg j)"
    unfolding r(3) mixture_def using next_mode_loop_RBKB [OF t]
    by (simp cong: weighted_sum_cong)
  moreover have "s1 a = s1 (mixture inp K sg j)"
  proof -
    have "s1 a = weighted_sum (transitionMatrix inp) j (numModes inp) (cn_cols (augA inp)) 1
        (column (Asigma t))"
      using r(4) As(2) nA by simp
    also have "\<dots> = weighted_sum (transitionMatrix inp) j (numModes inp) (cn_cols (augA inp)) 1
        (Asigma_of inp sg)"
      by (rule weighted_sum_cong) (simp add: As(3))
    finally show ?thesis by (simp add: mixture_def)
  qed
  moreover have "s2 a = s2 (mixture inp K sg j)"
  proof -
    have "s2 a = weighted_sum (transitionMatrix inp) j (numModes inp) (cn_cols (augB inp)) 1
        (column (Bsigma t))"
      using r(5) Bs(2) nB by simp
    also have "\<dots> = weighted_sum (transitionMatrix inp) j (numModes inp) (cn_cols (augB inp)) 1
        (Bsigma_of inp sg)"
      by (rule weighted_sum_cong) (simp add: Bs(3))
    finally show ?thesis by (simp add: mixture_def)
  qed
  ultimately show "a = mixture inp K sg j" by simp
qed

subsection \<open>One current mode\<close>

lemma mmul_neg_left: "mmul (neg X) P = neg (mmul X P)"
  unfolding mmul_def neg_def n_rows_mk_mat n_cols_mk_mat
  by (rule mk_mat_cong) (simp add: elem_mk_mat sum_negf)

lemma n_rows_madd: "n_rows (madd A B) = n_rows A"
  by (simp add: madd_def n_rows_mk_mat)

lemma n_cols_madd: "n_cols (madd A B) = n_cols A"
  by (simp add: madd_def n_cols_mk_mat)

lemma n_rows_msub: "n_rows (msub A B) = n_rows A"
  by (simp add: msub_def n_rows_mk_mat)

lemma n_cols_msub: "n_cols (msub A B) = n_cols A"
  by (simp add: msub_def n_cols_mk_mat)

lemma n_rows_mmul: "n_rows (mmul A B) = n_rows A"
  by (simp add: mmul_def n_rows_mk_mat)

lemma n_cols_mmul: "n_cols (mmul A B) = n_cols B"
  by (simp add: mmul_def n_cols_mk_mat)

lemma n_rows_trans: "n_rows (trans A) = n_cols A"
  by (simp add: trans_def n_rows_mk_mat)

lemma n_cols_trans: "n_cols (trans A) = n_rows A"
  by (simp add: trans_def n_cols_mk_mat)

lemma n_rows_neg: "n_rows (neg A) = n_rows A"
  by (simp add: neg_def n_rows_mk_mat)

lemma n_cols_neg: "n_cols (neg A) = n_cols A"
  by (simp add: neg_def n_cols_mk_mat)

lemma n_rows_upper_reflected: "n_rows (upper_reflected A) = n_rows A"
  by (simp add: upper_reflected_def n_rows_mk_mat)

lemma n_cols_upper_reflected: "n_cols (upper_reflected A) = n_cols A"
  by (simp add: upper_reflected_def n_cols_mk_mat)

lemmas dims_simps = n_rows_madd n_cols_madd n_rows_msub n_cols_msub n_rows_mmul n_cols_mmul
  n_rows_trans n_cols_trans n_rows_neg n_cols_neg n_rows_upper_reflected n_cols_upper_reflected
  n_rows_column n_cols_column n_rows_weighted_sum n_cols_weighted_sum n_rows_mk_mat n_cols_mk_mat

lemma store_K_Inr:
  assumes "store_K env j a s = Inr s'"
  obtains X where "pinv env (P3 a) = Some X" and "s' = s\<lparr>K_k := put_slice (K_k s) j (K_formula a X)\<rparr>"
    and "j < n_slices (K_k s)"
  using assms
  by (auto simp: store_K_def attempt_Inr_iff new_K_def bind_res_Inr_iff call_pinv_Inr_iff
      times3_Inr_iff symmatu_Inr_iff minus_Inr_iff set_slice_Inr_iff K_formula_def)

lemma store_sigma_Inr:
  assumes "store_sigma env inp k j a s = Inr s'"
  obtains X where "pinv env (P3 a) = Some X"
    and "s' = s\<lparr>sigma_k := mk_mat (n_rows (sigma_k s)) (n_cols (sigma_k s))
            (\<lambda>i c. if c = j then elem (sigma_formula inp k a X) i 0 else elem (sigma_k s) i c)\<rparr>"
    and "j < n_cols (sigma_k s)" and "n_rows (refWeightings inp) = n_rows (sigma_k s)"
    and "k < n_cols (refWeightings inp)"
  using assms unfolding sigma_formula_def
  by (auto simp: store_sigma_def attempt_Inr_iff new_sigma_def bind_res_Inr_iff call_pinv_Inr_iff
      times3_Inr_iff plus_Inr_iff minus_Inr_iff set_col_Inr_iff col_Inr_iff dims_simps)

lemma store_gain_Inr:
  assumes "store_gain env inp k j a s = Inr s'"
  obtains X where "pinv env (P3 a) = Some X"
    and "s' = s\<lparr>out := (out s)\<lparr>gains := (gains (out s))((k, j) \<mapsto> gain_formula a X)\<rparr>\<rparr>"
  using assms
  by (auto simp: store_gain_def attempt_Inr_iff gain_def bind_res_Inr_iff call_pinv_Inr_iff
      times_Inr_iff write_gain_def gain_formula_def mmul_neg_left split: if_splits)

lemma store_feedforward_Inr:
  assumes "store_feedforward env inp k j a s = Inr s'"
  obtains X where "pinv env (P3 a) = Some X"
    and "s' = s\<lparr>out := (out s)\<lparr>feedforwards := (feedforwards (out s))((k, j) \<mapsto> feedforward_formula a X)\<rparr>\<rparr>"
  using assms
  by (auto simp: store_feedforward_def attempt_Inr_iff feedforward_def bind_res_Inr_iff call_pinv_Inr_iff
      times_Inr_iff write_feedforward_def feedforward_formula_def split: if_splits)

lemma current_mode_body_Inr:
  assumes "current_mode_body env inp t k j s = Inr s'"
  obtains a X where "accumulate inp t j = Inr a" and "pinv env (P3 a) = Some X"
    and "K_k s' = put_slice (K_k s) j (K_formula a X)" and "j < n_slices (K_k s)"
    and "sigma_k s' = mk_mat (n_rows (sigma_k s)) (n_cols (sigma_k s))
            (\<lambda>i c. if c = j then elem (sigma_formula inp k a X) i 0 else elem (sigma_k s) i c)"
    and "j < n_cols (sigma_k s)" and "n_rows (refWeightings inp) = n_rows (sigma_k s)"
    and "gains (out s') = (gains (out s))((k, j) \<mapsto> gain_formula a X)"
    and "feedforwards (out s') = (feedforwards (out s))((k, j) \<mapsto> feedforward_formula a X)"
    and "dimsL (out s') = dimsL (out s)" and "dims (out s') = dims (out s)"
proof -
  from assms obtain a u1 u2 u3 where a: "accumulate inp t j = Inr a"
    and 1: "store_K env j a s = Inr u1" and 2: "store_sigma env inp k j a u1 = Inr u2"
    and 3: "store_gain env inp k j a u2 = Inr u3" and 4: "store_feedforward env inp k j a u3 = Inr s'"
    by (auto simp: current_mode_body_def attempt_Inr_iff bind_res_Inr_iff)
  from 1 obtain X where X: "pinv env (P3 a) = Some X"
    and u1: "u1 = s\<lparr>K_k := put_slice (K_k s) j (K_formula a X)\<rparr>" and j: "j < n_slices (K_k s)"
    by (rule store_K_Inr)
  have su1: "sigma_k u1 = sigma_k s" by (simp add: u1)
  from 2 X have u2: "u2 = u1\<lparr>sigma_k := mk_mat (n_rows (sigma_k s)) (n_cols (sigma_k s))
            (\<lambda>i c. if c = j then elem (sigma_formula inp k a X) i 0 else elem (sigma_k s) i c)\<rparr>"
    and jc: "j < n_cols (sigma_k s)" and nr: "n_rows (refWeightings inp) = n_rows (sigma_k s)"
    unfolding su1 [symmetric] by (auto elim!: store_sigma_Inr)
  from 3 X have u3: "u3 = u2\<lparr>out := (out u2)\<lparr>gains := (gains (out u2))((k, j) \<mapsto> gain_formula a X)\<rparr>\<rparr>"
    by (auto elim!: store_gain_Inr)
  from 4 X have s': "s' = u3\<lparr>out := (out u3)\<lparr>feedforwards := (feedforwards (out u3))((k, j) \<mapsto> feedforward_formula a X)\<rparr>\<rparr>"
    by (auto elim!: store_feedforward_Inr)
  show thesis
    by (rule that [OF a X]) (use j jc nr in \<open>simp_all add: s' u3 u2 u1\<close>)
qed

subsection \<open>One stage\<close>

lemma column_update_same:
  assumes "j < c" and "n_rows v = r" and "n_cols v = 1" and v: "v = mk_mat (n_rows v) (n_cols v) f"
  shows "column (mk_mat r c (\<lambda>i x. if x = j then elem v i 0 else elem M i x)) j = v"
proof -
  have "column (mk_mat r c (\<lambda>i x. if x = j then elem v i 0 else elem M i x)) j
      = mk_mat r 1 (\<lambda>i _. elem v i 0)"
    using assms(1) by (simp add: column_mk_mat)
  also have "\<dots> = mk_mat r 1 (\<lambda>i x. elem (mk_mat r 1 f) i x)"
    using v assms(2,3) by (intro mk_mat_cong) simp
  also have "\<dots> = mk_mat r 1 f"
    by (rule mk_mat_cong) (simp add: elem_mk_mat)
  also have "\<dots> = v" using v assms(2,3) by simp
  finally show ?thesis .
qed

lemma column_update_other:
  assumes "m < n_cols M" and "m \<noteq> j"
  shows "column (mk_mat (n_rows M) (n_cols M) (\<lambda>i x. if x = j then elem v i 0 else elem M i x)) m = column M m"
proof -
  have "column (mk_mat (n_rows M) (n_cols M) (\<lambda>i x. if x = j then elem v i 0 else elem M i x)) m
      = mk_mat (n_rows M) 1 (\<lambda>i _. if m = j then elem v i 0 else elem M i m)"
    using assms(1) by (rule column_mk_mat)
  also have "\<dots> = column M m" using assms(2) by (simp add: column_def)
  finally show ?thesis .
qed

lemma sigma_formula_shape:
  "sigma_formula inp k a X = mk_mat (n_rows (sigma_formula inp k a X)) (n_cols (sigma_formula inp k a X))
     (\<lambda>i j. elem (madd (column (refWeightings inp) k) (s1 a)) i j - elem (mmul (mmul (trans (P2 a)) X) (s2 a)) i j)"
  by (simp add: sigma_formula_def msub_def n_rows_mk_mat n_cols_mk_mat)

lemma stage_mode_loop:
  assumes t: "next_mode_loop inp (K_k s) (sigma_k s) = Inr t"
    and loop: "for_loop [0..<numModes inp] (current_mode_body env inp t k) s = Inr s'"
    and cols: "numModes inp \<le> n_cols (transitionMatrix inp)"
    and j: "j < numModes inp"
  shows "\<exists>X. pinv env (P3 (mixture inp (K_k s) (sigma_k s) j)) = Some X \<and>
      slices (K_k s') ! j = K_formula (mixture inp (K_k s) (sigma_k s) j) X \<and>
      column (sigma_k s') j = sigma_formula inp k (mixture inp (K_k s) (sigma_k s) j) X \<and>
      gains (out s') (k, j) = Some (gain_formula (mixture inp (K_k s) (sigma_k s) j) X) \<and>
      feedforwards (out s') (k, j) = Some (feedforward_formula (mixture inp (K_k s) (sigma_k s) j) X)"
proof -
  let ?a = "mixture inp (K_k s) (sigma_k s)"
  let ?R = "\<lambda>u j X. pinv env (P3 (?a j)) = Some X \<and>
      slices (K_k u) ! j = K_formula (?a j) X \<and>
      column (sigma_k u) j = sigma_formula inp k (?a j) X \<and>
      gains (out u) (k, j) = Some (gain_formula (?a j) X) \<and>
      feedforwards (out u) (k, j) = Some (feedforward_formula (?a j) X)"
  let ?P = "\<lambda>i u. n_cols (sigma_k u) = n_cols (sigma_k s) \<and> n_rows (sigma_k u) = n_rows (sigma_k s) \<and>
      n_slices (K_k u) = n_slices (K_k s) \<and> (\<forall>j<i. \<exists>X. ?R u j X)"
  have "?P (numModes inp) s'"
  proof (rule for_upto_invariant [OF loop, of ?P])
    show "?P 0 s" by simp
  next
    fix i u u'
    assume i: "i < numModes inp" and inv: "?P i u"
      and step: "current_mode_body env inp t k i u = Inr u'"
    from step obtain a X where a: "accumulate inp t i = Inr a" and X: "pinv env (P3 a) = Some X"
      and K: "K_k u' = put_slice (K_k u) i (K_formula a X)" and iK: "i < n_slices (K_k u)"
      and sg: "sigma_k u' = mk_mat (n_rows (sigma_k u)) (n_cols (sigma_k u))
            (\<lambda>r c. if c = i then elem (sigma_formula inp k a X) r 0 else elem (sigma_k u) r c)"
      and ic: "i < n_cols (sigma_k u)" and nr: "n_rows (refWeightings inp) = n_rows (sigma_k u)"
      and g: "gains (out u') = (gains (out u))((k, i) \<mapsto> gain_formula a X)"
      and f: "feedforwards (out u') = (feedforwards (out u))((k, i) \<mapsto> feedforward_formula a X)"
      by (rule current_mode_body_Inr)
    from i have "0 < numModes inp" by simp
    from accumulate_mixture(1) [OF t a cols this] have a_eq: "a = ?a i" .
    have shape: "n_cols (sigma_k u') = n_cols (sigma_k s)" "n_rows (sigma_k u') = n_rows (sigma_k s)"
      "n_slices (K_k u') = n_slices (K_k s)"
      using inv by (simp_all add: sg K n_rows_mk_mat n_cols_mk_mat n_slices_put_slice)
    have new: "?R u' i X"
    proof -
      have "slices (K_k u') ! i = K_formula a X"
        using iK by (simp add: K slices_put_slice)
      moreover have "column (sigma_k u') i = sigma_formula inp k a X"
        unfolding sg
        by (rule column_update_same [OF ic _ _ sigma_formula_shape])
          (simp_all add: sigma_formula_def dims_simps nr)
      ultimately show ?thesis using X g f a_eq by simp
    qed
    have old: "\<exists>Y. ?R u' m Y" if m: "m < i" for m
    proof -
      from inv m obtain Y where Y: "?R u m Y" by blast
      have "slices (K_k u') ! m = slices (K_k u) ! m"
        using iK m by (simp add: K slices_put_slice)
      moreover have "column (sigma_k u') m = column (sigma_k u) m"
        unfolding sg using m ic by (intro column_update_other) simp_all
      moreover have "gains (out u') (k, m) = gains (out u) (k, m)"
        "feedforwards (out u') (k, m) = feedforwards (out u) (k, m)"
        using m by (simp_all add: g f)
      ultimately have "?R u' m Y" using Y by simp
      then show ?thesis ..
    qed
    have "\<exists>Y. ?R u' m Y" if "m < Suc i" for m
      using that new old [of m] by (cases "m = i") (auto simp: less_Suc_eq)
    with shape show "?P (Suc i) u'" by blast
  qed
  with j show ?thesis by blast
qed

lemma stage_mode_loop_frame:
  assumes loop: "for_loop [0..<n] (current_mode_body env inp t k) s = Inr s'"
  shows "dimsL (out s') = dimsL (out s) \<and> dims (out s') = dims (out s) \<and>
     (\<forall>k' j'. k' \<noteq> k \<longrightarrow> gains (out s') (k', j') = gains (out s) (k', j') \<and>
        feedforwards (out s') (k', j') = feedforwards (out s) (k', j')) \<and>
     n_slices (K_k s') = n_slices (K_k s) \<and> cn_rows (K_k s') = cn_rows (K_k s) \<and>
     cn_cols (K_k s') = cn_cols (K_k s) \<and>
     n_rows (sigma_k s') = n_rows (sigma_k s) \<and> n_cols (sigma_k s') = n_cols (sigma_k s)"
proof -
  let ?P = "\<lambda>i::nat. \<lambda>u. dimsL (out u) = dimsL (out s) \<and> dims (out u) = dims (out s) \<and>
     (\<forall>k' j'. k' \<noteq> k \<longrightarrow> gains (out u) (k', j') = gains (out s) (k', j') \<and>
        feedforwards (out u) (k', j') = feedforwards (out s) (k', j')) \<and>
     n_slices (K_k u) = n_slices (K_k s) \<and> cn_rows (K_k u) = cn_rows (K_k s) \<and>
     cn_cols (K_k u) = cn_cols (K_k s) \<and>
     n_rows (sigma_k u) = n_rows (sigma_k s) \<and> n_cols (sigma_k u) = n_cols (sigma_k s)"
  have "?P n s'"
  proof (rule for_upto_invariant [OF loop, of ?P])
    show "?P 0 s" by simp
  next
    fix i u u'
    assume inv: "?P i u" and step: "current_mode_body env inp t k i u = Inr u'"
    from step inv show "?P (Suc i) u'"
      by (elim current_mode_body_Inr)
        (simp add: n_slices_put_slice cn_rows_put_slice cn_cols_put_slice n_rows_mk_mat n_cols_mk_mat)
  qed
  then show ?thesis .
qed

lemma stage_Inr:
  assumes "stage env inp k s = Inr s'"
  obtains t where "next_mode_loop inp (K_k s) (sigma_k s) = Inr t"
    and "for_loop [0..<numModes inp] (current_mode_body env inp t k) s = Inr s'"
  using assms by (auto simp: stage_def attempt_Inr_iff)

text \<open>What one iteration of the stage loop leaves behind for mode j.\<close>

lemma stage_result:
  assumes "stage env inp k s = Inr s'"
    and "numModes inp \<le> n_cols (transitionMatrix inp)"
    and "j < numModes inp"
  shows "\<exists>X. pinv env (P3 (mixture inp (K_k s) (sigma_k s) j)) = Some X \<and>
      slices (K_k s') ! j = K_formula (mixture inp (K_k s) (sigma_k s) j) X \<and>
      column (sigma_k s') j = sigma_formula inp k (mixture inp (K_k s) (sigma_k s) j) X \<and>
      gains (out s') (k, j) = Some (gain_formula (mixture inp (K_k s) (sigma_k s) j) X) \<and>
      feedforwards (out s') (k, j) = Some (feedforward_formula (mixture inp (K_k s) (sigma_k s) j) X)"
  using assms by (elim stage_Inr) (rule stage_mode_loop)

lemma stage_frame:
  assumes "stage env inp k s = Inr s'" and "k' \<noteq> k"
  shows "gains (out s') (k', j') = gains (out s) (k', j')"
    and "feedforwards (out s') (k', j') = feedforwards (out s) (k', j')"
  using assms by (auto elim!: stage_Inr dest!: stage_mode_loop_frame)

lemma stage_shape:
  assumes "stage env inp k s = Inr s'"
  shows "n_slices (K_k s') = n_slices (K_k s)" and "cn_rows (K_k s') = cn_rows (K_k s)"
    and "cn_cols (K_k s') = cn_cols (K_k s)"
    and "n_rows (sigma_k s') = n_rows (sigma_k s)" and "n_cols (sigma_k s') = n_cols (sigma_k s)"
    and "dimsL (out s') = dimsL (out s)" and "dims (out s') = dims (out s)"
  using assms by (auto elim!: stage_Inr dest!: stage_mode_loop_frame)

subsection \<open>Symmetry\<close>

lemma symmetric_iff:
  "symmetric A \<longleftrightarrow> n_rows A = n_cols A \<and> (\<forall>i<n_cols A. \<forall>j<n_cols A. elem A i j = elem A j i)"
  by (auto simp: symmetric_def list_all_iff)

lemma symmetric_upper_reflected:
  assumes "n_rows A = n_cols A"
  shows "symmetric (upper_reflected A)"
  using assms by (auto simp: symmetric_iff upper_reflected_def n_rows_mk_mat n_cols_mk_mat elem_mk_mat)

lemma symmetric_madd:
  assumes "symmetric A" and "symmetric B" and "n_rows B = n_rows A"
  shows "symmetric (madd A B)"
  using assms by (auto simp: symmetric_iff madd_def n_rows_mk_mat n_cols_mk_mat elem_mk_mat)

lemma symmetric_msub:
  assumes "symmetric A" and "symmetric B" and "n_rows B = n_rows A"
  shows "symmetric (msub A B)"
  using assms by (auto simp: symmetric_iff msub_def n_rows_mk_mat n_cols_mk_mat elem_mk_mat)

lemma symmetric_weighted_sum:
  assumes "\<And>m. m < n \<Longrightarrow> symmetric (F m) \<and> n_rows (F m) = r"
  shows "symmetric (weighted_sum T j n r r F)"
proof -
  have "elem (F m) a b = elem (F m) b a" if "m < n" "a < r" "b < r" for m a b
    using assms [OF that(1)] that(2,3) by (simp add: symmetric_iff)
  then show ?thesis
    by (simp add: symmetric_iff weighted_sum_def n_rows_mk_mat n_cols_mk_mat elem_mk_mat)
qed

lemma update_QAKA_dims:
  assumes "update_QAKA inp K i Q = Inr Q'"
  shows "n_rows (slices Q ! i) = n_cols (modeA inp i)" and "n_cols (slices Q ! i) = n_cols (modeA inp i)"
  using assms
  by (auto simp: update_QAKA_def bind_res_Inr_iff slice_Inr_iff times3_Inr_iff symmatu_Inr_iff
      plus_Inr_iff modeA_def dims_simps)

lemma next_mode_loop_Q_dims:
  assumes "next_mode_loop inp K sg = Inr t" and "m < numModes inp"
  shows "n_rows (modeQ inp m) = n_cols (modeA inp m)" and "n_cols (modeQ inp m) = n_cols (modeA inp m)"
    and "numModes inp \<le> n_slices (augQ inp)"
proof -
  let ?P = "\<lambda>i t. n_slices (QAKA t) = n_slices (augQ inp) \<and> i \<le> n_slices (augQ inp) \<and>
      (\<forall>m\<ge>i. slices (QAKA t) ! m = slices (augQ inp) ! m) \<and>
      (\<forall>m<i. n_rows (modeQ inp m) = n_cols (modeA inp m) \<and> n_cols (modeQ inp m) = n_cols (modeA inp m))"
  have "?P (numModes inp) t"
  proof (rule for_upto_invariant [OF assms(1) [unfolded next_mode_loop_def], of ?P])
    show "?P 0 \<lparr>QAKA = augQ inp, RBKB = augR inp,
        BKA = uninit_cube (cn_cols (augB inp)) (cn_rows (augA inp)) (numModes inp),
        Asigma = zeros (cn_cols (augA inp)) (numModes inp),
        Bsigma = zeros (cn_cols (augB inp)) (numModes inp)\<rparr>"
      by simp
  next
    fix i u u'
    assume i: "i < numModes inp" and inv: "?P i u" and step: "next_mode_body inp K sg i u = Inr u'"
    note upd = update_QAKA_Inr [OF next_mode_body_Inr(1) [OF step]]
    note d = update_QAKA_dims [OF next_mode_body_Inr(1) [OF step]]
    have "slices (QAKA u) ! i = modeQ inp i" using inv by (simp add: modeQ_def)
    with d have "n_rows (modeQ inp i) = n_cols (modeA inp i)" "n_cols (modeQ inp i) = n_cols (modeA inp i)"
      by simp_all
    then show "?P (Suc i) u'"
      using inv upd(2) unfolding upd(1)
      by (auto simp: n_slices_put_slice slices_put_slice less_Suc_eq)
  qed
  with assms(2) show "n_rows (modeQ inp m) = n_cols (modeA inp m)"
    and "n_cols (modeQ inp m) = n_cols (modeA inp m)" and "numModes inp \<le> n_slices (augQ inp)"
    by simp_all
qed

lemma symmetric_QAKA_of:
  assumes "symmetric (modeQ inp m)" and "n_rows (modeQ inp m) = n_cols (modeA inp m)"
  shows "symmetric (QAKA_of inp K m)"
  unfolding QAKA_of_def
  by (rule symmetric_madd [OF assms(1)])
    (simp_all add: symmetric_upper_reflected dims_simps assms(2))

lemma for_upto_iteration:
  assumes "for_loop [0..<n] body s = Inr s'" and "j < n"
  obtains u u' where "body j u = Inr u'"
proof -
  have "[0..<n] = [0..<j] @ j # [Suc j..<n]"
    using assms(2) by (metis le0 less_imp_le_nat upt_add_eq_append upt_conv_Cons le_add_diff_inverse)
  with assms(1) show thesis
    using that by (auto simp: for_loop_append bind_res_Inr_iff)
qed

lemma accumulate_slice_dims:
  assumes "accumulate inp t j = Inr a" and "numModes inp \<le> n_cols (transitionMatrix inp)"
    and "m < numModes inp"
  shows "n_rows (slices (QAKA t) ! m) = cn_rows (augA inp)"
proof -
  from assms(1) have loop: "for_loop [0..<numModes inp] (accumulate_body inp t j)
         \<lparr>P1 = zeros (cn_rows (augA inp)) (cn_cols (augA inp)),
          P2 = zeros (cn_cols (augB inp)) (cn_rows (augA inp)),
          P3 = zeros (cn_rows (augR inp)) (cn_cols (augR inp)),
          s1 = zeros (n_cols (Asigma t)) 1,
          s2 = zeros (n_cols (Bsigma t)) 1\<rparr> = Inr a"
    by (auto simp: accumulate_def bind_res_Inr_iff)
  let ?P = "\<lambda>i a. n_rows (P1 a) = cn_rows (augA inp) \<and>
      (\<forall>m<i. n_rows (slices (QAKA t) ! m) = cn_rows (augA inp))"
  have "?P (numModes inp) a"
  proof (rule for_upto_invariant [OF loop, of ?P])
    show "?P 0 \<lparr>P1 = zeros (cn_rows (augA inp)) (cn_cols (augA inp)),
          P2 = zeros (cn_cols (augB inp)) (cn_rows (augA inp)),
          P3 = zeros (cn_rows (augR inp)) (cn_cols (augR inp)),
          s1 = zeros (n_cols (Asigma t)) 1,
          s2 = zeros (n_cols (Bsigma t)) 1\<rparr>"
      by (simp add: zeros_def n_rows_mk_mat)
  next
    fix i u u'
    assume i: "i < numModes inp" and inv: "?P i u" and step: "accumulate_body inp t j i u = Inr u'"
    from i assms(2) have iT: "i < n_cols (transitionMatrix inp)" by simp
    note p1 = add_scaled_slice_Inr [OF accumulate_body_Inr(1) [OF step] iT]
    show "?P (Suc i) u'"
      using inv p1 by (auto simp: n_rows_madd less_Suc_eq)
  qed
  with assms(3) show ?thesis by simp
qed

lemma store_K_square:
  assumes "store_K env j a s = Inr s'"
  shows "n_rows (P1 a) = n_cols (P1 a)"
  using assms
  by (auto simp: store_K_def attempt_Inr_iff new_K_def bind_res_Inr_iff call_pinv_Inr_iff
      times3_Inr_iff symmatu_Inr_iff minus_Inr_iff dims_simps)

lemma current_mode_body_square:
  assumes "current_mode_body env inp t k j s = Inr s'"
  obtains a where "accumulate inp t j = Inr a" and "n_rows (P1 a) = n_cols (P1 a)"
  using assms
  by (auto simp: current_mode_body_def attempt_Inr_iff bind_res_Inr_iff dest: store_K_square)

lemma symmetric_K_formula:
  assumes "symmetric (P1 a)" and "n_cols (P2 a) = n_rows (P1 a)"
  shows "symmetric (K_formula a X)"
  unfolding K_formula_def
  by (rule symmetric_msub [OF assms(1)])
    (simp_all add: symmetric_upper_reflected dims_simps assms(2))

text \<open>With symmetric state costs, an iteration of the stage loop leaves symmetric matrices.\<close>

lemma stage_K_symmetric:
  assumes st: "stage env inp k s = Inr s'"
    and cols: "numModes inp \<le> n_cols (transitionMatrix inp)"
    and j: "j < numModes inp"
    and Q: "list_all symmetric (slices (augQ inp))"
  shows "symmetric (slices (K_k s') ! j)"
proof -
  from st obtain t where t: "next_mode_loop inp (K_k s) (sigma_k s) = Inr t"
    and loop: "for_loop [0..<numModes inp] (current_mode_body env inp t k) s = Inr s'"
    by (rule stage_Inr)
  from loop j obtain u u' where "current_mode_body env inp t k j u = Inr u'"
    by (rule for_upto_iteration)
  then obtain a where a: "accumulate inp t j = Inr a" and sq: "n_rows (P1 a) = n_cols (P1 a)"
    by (rule current_mode_body_square)
  from j have modes: "0 < numModes inp" by simp
  have a_eq: "a = mixture inp (K_k s) (sigma_k s) j"
    by (rule accumulate_mixture(1) [OF t a cols modes])
  from sq have square: "cn_rows (augA inp) = cn_cols (augA inp)"
    by (simp add: a_eq mixture_def dims_simps)
  have F: "symmetric (QAKA_of inp (K_k s) m) \<and> n_rows (QAKA_of inp (K_k s) m) = cn_rows (augA inp)"
    if m: "m < numModes inp" for m
  proof
    have "symmetric (modeQ inp m)"
      using Q m next_mode_loop_Q_dims(3) [OF t m]
      by (simp add: list_all_length modeQ_def n_slices_def)
    then show "symmetric (QAKA_of inp (K_k s) m)"
      by (rule symmetric_QAKA_of [OF _ next_mode_loop_Q_dims(1) [OF t m]])
    show "n_rows (QAKA_of inp (K_k s) m) = cn_rows (augA inp)"
      using accumulate_slice_dims [OF a cols m] next_mode_loop_QAKA [OF t m] by simp
  qed
  have "symmetric (P1 (mixture inp (K_k s) (sigma_k s) j))"
    unfolding mixture_def using symmetric_weighted_sum [of "numModes inp" "QAKA_of inp (K_k s)"
        "cn_rows (augA inp)" "transitionMatrix inp" j] F square
    by simp
  then have "symmetric (K_formula (mixture inp (K_k s) (sigma_k s) j) X)" for X
    by (rule symmetric_K_formula) (simp add: mixture_def dims_simps)
  with stage_result [OF st cols j] show ?thesis by auto
qed

subsection \<open>The loop over the stages\<close>

lemma value_function_Some_iff:
  "value_function env inp k = Some s \<longleftrightarrow>
     (\<exists>s0. initial_state inp = Inr s0 \<and>
        for_loop (rev [k..<nat (horizonLength inp)]) (stage env inp) s0 = Inr s)"
  by (auto simp: value_function_def split: sum.splits)

lemma value_function_step:
  assumes "k < nat (horizonLength inp)"
  shows "value_function env inp k = Some s' \<longleftrightarrow>
     (\<exists>s. value_function env inp (Suc k) = Some s \<and> stage env inp k s = Inr s')"
proof -
  have "rev [k..<nat (horizonLength inp)] = rev [Suc k..<nat (horizonLength inp)] @ [k]"
    using assms by (simp add: upt_conv_Cons)
  then show ?thesis
    by (auto simp: value_function_Some_iff for_loop_append bind_res_Inr_iff)
qed

lemma stage_loop_split:
  assumes "k \<le> nat (horizonLength inp)"
  shows "stage_loop env inp s0 = Inr sf \<longleftrightarrow>
     (\<exists>s. for_loop (rev [k..<nat (horizonLength inp)]) (stage env inp) s0 = Inr s \<and>
          for_loop (rev [0..<k]) (stage env inp) s = Inr sf)"
proof -
  have "[0..<nat (horizonLength inp)] = [0..<k] @ [k..<nat (horizonLength inp)]"
    using assms upt_add_eq_append [of 0 k "nat (horizonLength inp) - k"] by simp
  then have "rev [0..<nat (horizonLength inp)] = rev [k..<nat (horizonLength inp)] @ rev [0..<k]"
    by (metis rev_append)
  then show ?thesis
    by (simp add: stage_loop_def for_loop_append bind_res_Inr_iff)
qed

lemma earlier_stages_frame:
  assumes "for_loop (rev [0..<k]) (stage env inp) s = Inr sf" and "k \<le> k'"
  shows "gains (out sf) (k', j) = gains (out s) (k', j)"
    and "feedforwards (out sf) (k', j) = feedforwards (out s) (k', j)"
proof -
  let ?P = "\<lambda>i::nat. \<lambda>u. gains (out u) (k', j) = gains (out s) (k', j) \<and>
      feedforwards (out u) (k', j) = feedforwards (out s) (k', j)"
  have "?P 0 sf"
  proof (rule for_down_invariant [OF assms(1), of ?P])
    show "?P k s" by simp
  next
    fix i u u'
    assume "i < k" and inv: "?P (Suc i) u" and step: "stage env inp i u = Inr u'"
    with assms(2) have "k' \<noteq> i" by simp
    from stage_frame [OF step this] inv show "?P i u'" by simp
  qed
  then show "gains (out sf) (k', j) = gains (out s) (k', j)"
    and "feedforwards (out sf) (k', j) = feedforwards (out s) (k', j)"
    by simp_all
qed

lemma mexFunction_Returned_iff:
  "mexFunction env inp = Returned ou \<longleftrightarrow>
     mxCreateUninitNumericArray env (dimsL (allocate_outputs inp)) \<and>
     mxCreateUninitNumericArray env (dims (allocate_outputs inp)) \<and>
     (\<exists>s0 sf. initial_state inp = Inr s0 \<and> stage_loop env inp s0 = Inr sf \<and> ou = out sf)"
  by (auto simp: mexFunction_def split: sum.splits prod.splits)

text \<open>The cell of stage k and mode j of a returned array was written by iteration k.\<close>

lemma returned_cells:
  assumes ret: "mexFunction env inp = Returned ou" and k: "k < nat (horizonLength inp)"
  obtains s s' where "value_function env inp (Suc k) = Some s" and "stage env inp k s = Inr s'"
    and "value_function env inp k = Some s'"
    and "\<And>j. gains ou (k, j) = gains (out s') (k, j)"
    and "\<And>j. feedforwards ou (k, j) = feedforwards (out s') (k, j)"
proof -
  from ret obtain s0 sf where s0: "initial_state inp = Inr s0"
    and loop: "stage_loop env inp s0 = Inr sf" and ou: "ou = out sf"
    by (auto simp: mexFunction_Returned_iff)
  from k have "k \<le> nat (horizonLength inp)" by simp
  from loop [unfolded stage_loop_split [OF this]] obtain s'
    where s': "for_loop (rev [k..<nat (horizonLength inp)]) (stage env inp) s0 = Inr s'"
      and rest: "for_loop (rev [0..<k]) (stage env inp) s' = Inr sf"
    by blast
  from s0 s' have vf: "value_function env inp k = Some s'"
    by (auto simp: value_function_Some_iff)
  from vf [unfolded value_function_step [OF k]] obtain s
    where s: "value_function env inp (Suc k) = Some s" and st: "stage env inp k s = Inr s'"
    by blast
  show thesis
    by (rule that [OF s st vf]) (simp_all add: ou earlier_stages_frame [OF rest])
qed

subsection \<open>Evaluation at concrete inputs\<close>

lemmas evals = elem_def mk_mat_def n_slices_def bind_res_def zeros_def trans_def mmul_def madd_def
  msub_def smult_def neg_def upper_reflected_def symmetric_def times_def times3_def plus_def
  minus_def symmatu_def col_def set_col_def tail_col_def slice_def put_slice_def set_slice_def
  row_iterator_deref_def begin_row_def is_zero_def append_col_def append_row_def greville_row_def
  greville_extend_def greville_residual_def greville_step_def pinv_exact_def penrose_def
  numModes_def size_t_of_int_def call_pinv_def uninit_cube_def initial_K_def initial_sigma_def
  update_QAKA_def update_RBKB_def update_BKA_def update_Asigma_def update_Bsigma_def
  next_mode_body_def next_mode_loop_def add_scaled_slice_def add_scaled_col_def
  accumulate_body_def accumulate_def new_K_def new_sigma_def gain_def feedforward_def
  write_gain_def write_feedforward_def attempt_def store_K_def store_sigma_def store_gain_def
  store_feedforward_def current_mode_body_def stage_def stage_loop_def allocate_outputs_def
  initial_state_def mexFunction_def exact_host_def column_def weighted_sum_def modeA_def
  modeB_def modeQ_def modeR_def QAKA_of_def RBKB_of_def BKA_of_def Asigma_of_def Bsigma_of_def
  mixture_def value_function_def returned_gain_def stage_K_def
  sym_def spec_QAKA_def spec_RBKB_def spec_mixture_def spec_gain_def spec_K_def
  mat11_def mat22_def one_mode_def two_modes_def scalar_example_def scalar_example_outputs_def
  asymmetric_terminal_example_def asymmetric_Q_example_def mismatched_R_example_def
  two_state_example_def zero_R_example_def scalar_zero_R_example_def
  oversized_transition_example_def short_reference_example_def long_reference_example_def
  one_row_transition_example_def symmetric_Q_example_def two_mode_reference_example_def
  prepend_column_def longer_horizon_def riccati_gain_def riccati_feedforward_def riccati_K_def
  riccati_sigma_def upt_conv_Cons eval_nat_numeral

text \<open>
  The scalar example by hand: at stage 1, \<open>P2 = 1\<close>, \<open>P3 = 2\<close>, the gain is \<open>-1/2\<close>, the
  feedforward \<open>4/2 = 2\<close>, \<open>K = 2 - 1/2 = 3/2\<close> and \<open>sigma = 2 + 4 - 2 = 4\<close>; at stage 0,
  \<open>P2 = 3/2\<close>, \<open>P3 = 5/2\<close>, the gain is \<open>-3/5\<close> and the feedforward \<open>4 \<cdot> 2/5 = 8/5\<close>.
\<close>

lemma scalar_example_run: "mexFunction exact_host scalar_example = Returned scalar_example_outputs"
  by (simp add: scalar_example_def scalar_example_outputs_def evals)

subsection \<open>The start of the call and its failures\<close>

lemma initial_state_Inr:
  assumes "n_rows (terminalK inp) = cn_rows (augA inp)" and "n_cols (terminalK inp) = cn_cols (augA inp)"
    and "1 \<le> n_cols (refWeightings inp)"
  shows "initial_state inp =
     Inr \<lparr>K_k = \<lparr>cn_rows = cn_rows (augA inp), cn_cols = cn_cols (augA inp),
                 slices = replicate (numModes inp) (terminalK inp)\<rparr>,
          sigma_k = mk_mat (n_rows (refWeightings inp)) (numModes inp)
             (\<lambda>i j. elem (column (refWeightings inp) (n_cols (refWeightings inp) - 1)) i 0),
          out = allocate_outputs inp\<rparr>"
  using assms
  by (simp add: initial_state_def initial_K_def initial_sigma_def tail_col_def col_def column_def
      bind_res_Inr)

lemma value_function_horizon:
  "initial_state inp = Inr s0 \<Longrightarrow> value_function env inp (nat (horizonLength inp)) = Some s0"
  by (simp add: value_function_def)






text \<open>
  The call returns only if the number of modes equals both the state dimension and the
  input dimension: the vectors s1 and s2 have as many elements as there are modes.
\<close>

lemma returns_only_if_dimensions_equal_mode_count:
  assumes ret: "mexFunction env inp = Returned ou"
    and "0 < horizonLength inp" and modes: "0 < numModes inp"
    and cols: "numModes inp \<le> n_cols (transitionMatrix inp)"
  shows "cn_cols (augA inp) = numModes inp \<and> cn_cols (augB inp) = numModes inp"
proof -
  from assms(2) have "0 < nat (horizonLength inp)" by simp
  with ret obtain s s' where st: "stage env inp 0 s = Inr s'"
    by (rule returned_cells)
  from st obtain t where t: "next_mode_loop inp (K_k s) (sigma_k s) = Inr t"
    and loop: "for_loop [0..<numModes inp] (current_mode_body env inp t 0) s = Inr s'"
    by (rule stage_Inr)
  from loop modes obtain u u' where "current_mode_body env inp t 0 0 u = Inr u'"
    by (rule for_upto_iteration)
  then obtain a where a: "accumulate inp t 0 = Inr a"
    by (rule current_mode_body_square)
  from accumulate_mixture(2,3) [OF t a cols modes] show ?thesis by simp
qed

subsection \<open>The errors of a call and its output arrays\<close>











lemma call_pinv_errors: "call_pinv env M = Inl e \<Longrightarrow> e \<noteq> AllocationFailed"
  by (auto simp: call_pinv_def split: option.splits)


















subsection \<open>The same system with a horizon longer by one\<close>

lemma attempt_commute:
  assumes "\<And>x. f x = map_sum (apsnd U) U (g x)"
  shows "attempt (U s) m f = map_sum (apsnd U) U (attempt s m g)"
  using assms by (cases m) (simp_all add: attempt_def)

lemma bind_res_commute:
  assumes "\<And>u. f (U u) = map_sum h U (g u)"
  shows "bind_res (map_sum h U r) f = map_sum h U (bind_res r g)"
  using assms by (cases r) (simp_all add: bind_res_def)

lemma for_loop_commute:
  assumes "\<And>i s. body (U s) i = map_sum h U (body' s (g i))"
  shows "for_loop xs (\<lambda>i s. body s i) (U s) = map_sum h U (for_loop (map g xs) (\<lambda>i s. body' s i) s)"
proof (induction xs arbitrary: s)
  case Nil
  show ?case by simp
next
  case (Cons i xs)
  show ?case
    by (simp add: assms Cons.IH bind_res_commute)
qed

lemma numModes_longer: "numModes (longer_horizon inp w) = numModes inp"
  by (simp add: numModes_def longer_horizon_def)

lemma next_mode_body_longer: "next_mode_body (longer_horizon inp w) = next_mode_body inp"
  by (simp add: fun_eq_iff next_mode_body_def update_QAKA_def update_RBKB_def
      update_BKA_def update_Asigma_def update_Bsigma_def longer_horizon_def)

lemma next_mode_loop_longer: "next_mode_loop (longer_horizon inp w) = next_mode_loop inp"
  by (simp add: fun_eq_iff next_mode_loop_def next_mode_body_longer numModes_longer)
    (simp add: longer_horizon_def)

lemma accumulate_body_longer: "accumulate_body (longer_horizon inp w) = accumulate_body inp"
  by (simp add: fun_eq_iff accumulate_body_def longer_horizon_def)

lemma accumulate_longer: "accumulate (longer_horizon inp w) = accumulate inp"
  by (simp add: fun_eq_iff accumulate_def accumulate_body_longer numModes_longer)
    (simp add: longer_horizon_def)

lemma col_prepend_column: "col (prepend_column w W) (Suc k) = col W k"
proof (cases "k < n_cols W")
  case True
  have "mk_mat (n_rows W) 1 (\<lambda>i _. elem (prepend_column w W) i (Suc k)) = mk_mat (n_rows W) 1 (\<lambda>i _. elem W i k)"
    using True by (intro mk_mat_cong) (simp add: prepend_column_def elem_mk_mat)
  with True show ?thesis by (simp add: col_def prepend_column_def n_rows_mk_mat n_cols_mk_mat)
next
  case False
  then show ?thesis by (simp add: col_def prepend_column_def n_cols_mk_mat)
qed

lemma new_sigma_longer: "new_sigma env (longer_horizon inp w) (Suc k) a = new_sigma env inp k a"
  by (simp add: new_sigma_def longer_horizon_def col_prepend_column)

lemma write_gain_longer:
  "write_gain inp k j G (drop_first_stage inp ou)
     = map_sum id (drop_first_stage inp) (write_gain (longer_horizon inp w) (Suc k) j G ou)"
  by (auto simp: write_gain_def numModes_longer drop_first_stage_def fun_eq_iff)
    (simp_all add: longer_horizon_def)

lemma write_feedforward_longer:
  "write_feedforward inp k j f (drop_first_stage inp ou)
     = map_sum id (drop_first_stage inp) (write_feedforward (longer_horizon inp w) (Suc k) j f ou)"
  by (auto simp: write_feedforward_def numModes_longer drop_first_stage_def fun_eq_iff)
    (simp_all add: longer_horizon_def)

lemma store_K_longer:
  "store_K env j a (shorter_view inp s)
     = map_sum (apsnd (shorter_view inp)) (shorter_view inp) (store_K env j a s)"
  by (simp add: store_K_def attempt_def shorter_view_def split: sum.splits)

lemma store_sigma_longer:
  "store_sigma env inp k j a (shorter_view inp s)
     = map_sum (apsnd (shorter_view inp)) (shorter_view inp)
         (store_sigma env (longer_horizon inp w) (Suc k) j a s)"
  by (simp add: store_sigma_def new_sigma_longer attempt_def shorter_view_def split: sum.splits)

lemma store_gain_longer:
  "store_gain env inp k j a (shorter_view inp s)
     = map_sum (apsnd (shorter_view inp)) (shorter_view inp)
         (store_gain env (longer_horizon inp w) (Suc k) j a s)"
proof -
  have "attempt (shorter_view inp s) (write_gain inp k j G (out (shorter_view inp s)))
          (\<lambda>ou. Inr (shorter_view inp s\<lparr>out := ou\<rparr>))
      = map_sum (apsnd (shorter_view inp)) (shorter_view inp)
          (attempt s (write_gain (longer_horizon inp w) (Suc k) j G (out s)) (\<lambda>ou. Inr (s\<lparr>out := ou\<rparr>)))" for G
    by (cases "write_gain (longer_horizon inp w) (Suc k) j G (out s)")
      (simp_all add: shorter_view_def write_gain_longer [of inp k j G "out s" w] attempt_def)
  then show ?thesis
    unfolding store_gain_def by (intro attempt_commute)
qed

lemma store_feedforward_longer:
  "store_feedforward env inp k j a (shorter_view inp s)
     = map_sum (apsnd (shorter_view inp)) (shorter_view inp)
         (store_feedforward env (longer_horizon inp w) (Suc k) j a s)"
proof -
  have "attempt (shorter_view inp s) (write_feedforward inp k j f (out (shorter_view inp s)))
          (\<lambda>ou. Inr (shorter_view inp s\<lparr>out := ou\<rparr>))
      = map_sum (apsnd (shorter_view inp)) (shorter_view inp)
          (attempt s (write_feedforward (longer_horizon inp w) (Suc k) j f (out s)) (\<lambda>ou. Inr (s\<lparr>out := ou\<rparr>)))" for f
    by (cases "write_feedforward (longer_horizon inp w) (Suc k) j f (out s)")
      (simp_all add: shorter_view_def write_feedforward_longer [of inp k j f "out s" w] attempt_def)
  then show ?thesis
    unfolding store_feedforward_def by (intro attempt_commute)
qed

lemma current_mode_body_longer:
  "current_mode_body env inp t k j (shorter_view inp s)
     = map_sum (apsnd (shorter_view inp)) (shorter_view inp)
         (current_mode_body env (longer_horizon inp w) t (Suc k) j s)"
  unfolding current_mode_body_def accumulate_longer
  by (intro attempt_commute)
    (simp add: store_K_longer [of env _ _ inp] store_sigma_longer [of env inp k _ _ _ w]
      store_gain_longer [of env inp k _ _ _ w] store_feedforward_longer [of env inp k _ _ _ w]
      bind_res_commute)

lemma K_k_shorter_view: "K_k (shorter_view inp s) = K_k s"
  by (simp add: shorter_view_def)

lemma sigma_k_shorter_view: "sigma_k (shorter_view inp s) = sigma_k s"
  by (simp add: shorter_view_def)

lemma stage_longer:
  "stage env inp k (shorter_view inp s)
     = map_sum (apsnd (shorter_view inp)) (shorter_view inp) (stage env (longer_horizon inp w) (Suc k) s)"
proof -
  have "for_loop xs (\<lambda>j u. current_mode_body env inp t k j u) (shorter_view inp s)
      = map_sum (apsnd (shorter_view inp)) (shorter_view inp)
          (for_loop (map id xs) (\<lambda>j u. current_mode_body env (longer_horizon inp w) t (Suc k) j u) s)" for xs t
    by (rule for_loop_commute) (simp add: current_mode_body_longer [of env inp _ k _ _ w])
  then show ?thesis
    unfolding stage_def next_mode_loop_longer numModes_longer K_k_shorter_view sigma_k_shorter_view
    by (intro attempt_commute) simp
qed

lemma stages_longer:
  "for_loop xs (stage env inp) (shorter_view inp s)
     = map_sum (apsnd (shorter_view inp)) (shorter_view inp)
         (for_loop (map Suc xs) (stage env (longer_horizon inp w)) s)"
  using for_loop_commute [of "\<lambda>s k. stage env inp k s" "shorter_view inp"
      "apsnd (shorter_view inp)" "\<lambda>s k. stage env (longer_horizon inp w) k s" Suc xs s]
  by (simp add: stage_longer [of env inp _ _ w])

lemma rev_upt_Suc_shift: "rev [0..<Suc n] = map Suc (rev [0..<n]) @ [0]"
proof -
  have "[0..<Suc n] = 0 # map Suc [0..<n]"
    by (simp add: upt_conv_Cons map_Suc_upt del: upt_Suc)
  then show ?thesis by (simp add: rev_map del: upt_Suc)
qed

lemma tail_col_prepend_column:
  assumes "1 \<le> n_cols W"
  shows "tail_col (prepend_column w W) = tail_col W"
proof -
  from assms obtain c where c: "n_cols W = Suc c" by (cases "n_cols W") auto
  have "tail_col (prepend_column w W) = col (prepend_column w W) (Suc c)"
    by (simp add: tail_col_def prepend_column_def n_cols_mk_mat c)
  also have "\<dots> = col W c" by (rule col_prepend_column)
  also have "\<dots> = tail_col W" by (simp add: tail_col_def c)
  finally show ?thesis .
qed

lemma initial_state_longer:
  assumes "1 \<le> n_cols (refWeightings inp)"
    and "initial_state (longer_horizon inp w) = Inr s"
  shows "initial_state inp = Inr (shorter_view inp s)"
proof -
  have K: "initial_K (longer_horizon inp w) = initial_K inp"
    by (simp add: initial_K_def longer_horizon_def numModes_def)
  have sg: "initial_sigma (longer_horizon inp w) = initial_sigma inp"
    using tail_col_prepend_column [OF assms(1), of w]
    by (simp add: initial_sigma_def longer_horizon_def numModes_def prepend_column_def n_rows_mk_mat)
  have "drop_first_stage inp (allocate_outputs (longer_horizon inp w)) = allocate_outputs inp"
    by (simp add: drop_first_stage_def allocate_outputs_def fun_eq_iff)
  with assms(2) show ?thesis
    by (auto simp: initial_state_def K sg bind_res_Inr_iff shorter_view_def)
qed

subsection \<open>The exact pseudo-inverse\<close>

lemma elem_zeros: "i < r \<Longrightarrow> j < c \<Longrightarrow> elem (zeros r c) i j = 0"
  by (simp add: zeros_def elem_mk_mat)

lemma mmul_zeros_left: "mmul (zeros a b) M = zeros a (n_cols M)"
  unfolding mmul_def zeros_def n_rows_mk_mat n_cols_mk_mat
  by (rule mk_mat_cong) (simp add: elem_mk_mat)

lemma n_rows_zeros: "n_rows (zeros r c) = r"
  by (simp add: zeros_def n_rows_mk_mat)

lemma n_cols_zeros: "n_cols (zeros r c) = c"
  by (simp add: zeros_def n_cols_mk_mat)

lemma msub_zeros: "msub (zeros r c) (zeros r c) = zeros r c"
  unfolding msub_def n_rows_zeros n_cols_zeros
  unfolding zeros_def by (rule mk_mat_cong) (simp add: elem_mk_mat)

lemma smult_zeros: "smult x (zeros r c) = zeros r c"
  unfolding smult_def n_rows_zeros n_cols_zeros
  unfolding zeros_def by (rule mk_mat_cong) (simp add: elem_mk_mat)

lemma trans_zeros: "trans (zeros r c) = zeros c r"
  unfolding trans_def n_rows_zeros n_cols_zeros
  unfolding zeros_def by (rule mk_mat_cong) (simp add: elem_mk_mat)

lemma is_zero_zeros: "is_zero (zeros r c)"
  by (simp add: is_zero_def zeros_def mk_mat_def list_all_iff)

lemma append_col_zeros: "append_col (zeros r k) (zeros r (Suc 0)) = zeros r (Suc k)"
  unfolding append_col_def n_rows_zeros n_cols_zeros
  unfolding zeros_def by (rule mk_mat_cong) (simp add: elem_mk_mat)

lemma append_row_zeros: "append_row (zeros k r) (zeros (Suc 0) r) = zeros (Suc k) r"
  unfolding append_row_def n_rows_zeros n_cols_zeros
  unfolding zeros_def by (rule mk_mat_cong) (simp add: elem_mk_mat)

lemma greville_step_zeros:
  "greville_step (zeros r k, zeros k r) (zeros r (Suc 0)) = (zeros r (Suc k), zeros (Suc k) r)"
  by (simp add: greville_step_def greville_residual_def greville_row_def greville_extend_def
      mmul_zeros_left n_cols_zeros msub_zeros is_zero_zeros trans_zeros smult_zeros
      append_col_zeros append_row_zeros)

lemma greville_zero_columns:
  "foldl greville_step (zeros r k, zeros k r) (replicate m (zeros r (Suc 0))) = (zeros r (k + m), zeros (k + m) r)"
  by (induction m arbitrary: k) (simp_all add: greville_step_zeros)

text \<open>The exact pseudo-inverse of a zero matrix is the zero matrix of the transposed size.\<close>

lemma pinv_exact_zeros: "pinv_exact (zeros r c) = zeros c r"
proof -
  have "map (\<lambda>j. mk_mat r 1 (\<lambda>i _. elem (zeros r c) i j)) [0..<c] = map (\<lambda>j. zeros r 1) [0..<c]"
  proof (rule map_cong [OF refl])
    fix j assume "j \<in> set [0..<c]"
    then have "j < c" by simp
    then show "mk_mat r 1 (\<lambda>i _. elem (zeros r c) i j) = zeros r 1"
      unfolding zeros_def [of r 1] by (intro mk_mat_cong) (simp add: elem_zeros)
  qed
  also have "\<dots> = replicate c (zeros r 1)"
    by (simp add: map_replicate_const)
  finally show ?thesis
    using greville_zero_columns [of r 0 c]
    by (simp add: pinv_exact_def n_rows_zeros n_cols_zeros)
qed

text \<open>
  At the matrices of the examples below the exact pseudo-inverse satisfies the four Penrose
  equations, which have one solution only.
\<close>

lemma pinv_exact_penrose_examples:
  "penrose (mat22 0 1 1 0) (pinv_exact (mat22 0 1 1 0))"
  "penrose (mat22 0 (1 / 2) (1 / 2) 0) (pinv_exact (mat22 0 (1 / 2) (1 / 2) 0))"
  "penrose (mat22 1 0 0 1) (pinv_exact (mat22 1 0 0 1))"
  "penrose (mat11 2) (pinv_exact (mat11 2))"
  "penrose (mat11 (5 / 2)) (pinv_exact (mat11 (5 / 2)))"
  "penrose (mat11 0) (pinv_exact (mat11 0))"
  "penrose (mat22 1 1 1 1) (pinv_exact (mat22 1 1 1 1))"
  "penrose (mat22 2 0 0 2) (pinv_exact (mat22 2 0 0 2))"
  by (simp_all add: evals)

subsection \<open>Single-mode and zero-cost examples\<close>

text \<open>
  On the scalar example the source's gains and feedforward terms are those of the standard
  recursion, stage by stage.
\<close>

lemma scalar_example_is_riccati:
  "riccati_gain exact_host (mat11 1) (mat11 1) (mat11 1) (mat11 1) = gains scalar_example_outputs (1, 0)"
  "riccati_feedforward exact_host (mat11 1) (mat11 1) (mat11 1) (mat11 4) = feedforwards scalar_example_outputs (1, 0)"
  "riccati_K exact_host (mat11 1) (mat11 1) (mat11 1) (mat11 1) (mat11 1) = Some (mat11 (3 / 2))"
  "riccati_sigma exact_host (mat11 1) (mat11 1) (mat11 1) (mat11 1) (mat11 4) (mat11 2) = Some (mat11 4)"
  "riccati_gain exact_host (mat11 1) (mat11 1) (mat11 1) (mat11 (3 / 2)) = gains scalar_example_outputs (0, 0)"
  "riccati_feedforward exact_host (mat11 1) (mat11 1) (mat11 (3 / 2)) (mat11 4) = feedforwards scalar_example_outputs (0, 0)"
  by (simp_all add: evals)

text \<open>
  With one state, one input and one mode, zero input cost and \<open>B = 0\<close>, the matrix \<open>P3\<close> is
  zero at both stages, its pseudo-inverse is zero, and the call returns zero gains and
  feedforward terms.
\<close>

lemma scalar_zero_R_run:
  "mexFunction exact_host scalar_zero_R_example =
     Returned \<lparr>dimsL = [1, 1, 1, 2],
       gains = [(1, 0) \<mapsto> mat11 0, (0, 0) \<mapsto> mat11 0],
       dims = [1, 1, 2],
       feedforwards = [(1, 0) \<mapsto> mat11 0, (0, 0) \<mapsto> mat11 0]\<rparr>"
  by (simp add: evals)

subsection \<open>The parameter \<open>Qref\<close> is never read\<close>

lemma numModes_Qref: "numModes (inp\<lparr>Qref := q\<rparr>) = numModes inp"
  by (simp add: numModes_def)

lemma next_mode_body_Qref: "next_mode_body (inp\<lparr>Qref := q\<rparr>) = next_mode_body inp"
  by (simp add: fun_eq_iff next_mode_body_def update_QAKA_def update_RBKB_def
      update_BKA_def update_Asigma_def update_Bsigma_def)

lemma next_mode_loop_Qref: "next_mode_loop (inp\<lparr>Qref := q\<rparr>) = next_mode_loop inp"
  by (simp add: fun_eq_iff next_mode_loop_def next_mode_body_Qref numModes_def)

lemma accumulate_body_Qref: "accumulate_body (inp\<lparr>Qref := q\<rparr>) = accumulate_body inp"
  by (simp add: fun_eq_iff accumulate_body_def)

lemma accumulate_Qref: "accumulate (inp\<lparr>Qref := q\<rparr>) = accumulate inp"
  by (simp add: fun_eq_iff accumulate_def accumulate_body_Qref numModes_def)

lemma store_sigma_Qref: "store_sigma env (inp\<lparr>Qref := q\<rparr>) = store_sigma env inp"
  by (simp add: fun_eq_iff store_sigma_def new_sigma_def)

lemma write_gain_Qref: "write_gain (inp\<lparr>Qref := q\<rparr>) = write_gain inp"
  by (simp add: fun_eq_iff write_gain_def numModes_def)

lemma write_feedforward_Qref: "write_feedforward (inp\<lparr>Qref := q\<rparr>) = write_feedforward inp"
  by (simp add: fun_eq_iff write_feedforward_def numModes_def)

lemma store_gain_Qref: "store_gain env (inp\<lparr>Qref := q\<rparr>) = store_gain env inp"
  by (simp add: fun_eq_iff store_gain_def write_gain_Qref)

lemma store_feedforward_Qref: "store_feedforward env (inp\<lparr>Qref := q\<rparr>) = store_feedforward env inp"
  by (simp add: fun_eq_iff store_feedforward_def write_feedforward_Qref)

lemma current_mode_body_Qref: "current_mode_body env (inp\<lparr>Qref := q\<rparr>) = current_mode_body env inp"
  by (simp add: fun_eq_iff current_mode_body_def accumulate_Qref store_sigma_Qref
      store_gain_Qref store_feedforward_Qref)

lemma stage_Qref: "stage env (inp\<lparr>Qref := q\<rparr>) = stage env inp"
  by (simp add: fun_eq_iff stage_def next_mode_loop_Qref current_mode_body_Qref numModes_Qref)

lemma allocate_outputs_Qref: "allocate_outputs (inp\<lparr>Qref := q\<rparr>) = allocate_outputs inp"
  by (simp add: allocate_outputs_def numModes_def)

lemma initial_state_Qref: "initial_state (inp\<lparr>Qref := q\<rparr>) = initial_state inp"
  by (simp add: initial_state_def initial_K_def initial_sigma_def allocate_outputs_Qref numModes_def)

lemma stage_loop_Qref: "stage_loop env (inp\<lparr>Qref := q\<rparr>) = stage_loop env inp"
  by (simp add: fun_eq_iff stage_loop_def stage_Qref)

section \<open>The claims\<close>

text \<open>
  C1, as the source has it. Whenever the call returns (with a transition matrix of at least
  \<open>numModes\<close> columns), the gain written for stage \<open>k\<close> and mode \<open>j\<close> is \<open>-pinv(P3) P2\<close> and
  the feedforward term is \<open>pinv(P3) s2\<close>, where \<open>P2 = \<Sum>m. T[j,m] B\<^sup>T[m] K[m] A[m]\<close>,
  \<open>P3 = \<Sum>m. T[j,m] (R[m] + symmatu(B\<^sup>T[m] K[m] B[m]))\<close>, \<open>s2 = \<Sum>m. T[j,m] B\<^sup>T[m] sigma[m]\<close>
  and \<open>(K, sigma)\<close> is the value-function state of stage \<open>k + 1\<close>. \<^verbatim>\<open>symmatu\<close> copies the upper
  triangle into the lower one; it is not the averaging \<open>sym\<close> of the specification.
\<close>

theorem C1_gain_and_feedforward:
  assumes "mexFunction env inp = Returned ou"
    and "numModes inp \<le> n_cols (transitionMatrix inp)"
    and "k < nat (horizonLength inp)" and "j < numModes inp"
  shows "\<exists>s X. value_function env inp (Suc k) = Some s \<and>
      pinv env (weighted_sum (transitionMatrix inp) j (numModes inp) (cn_rows (augR inp))
                  (cn_cols (augR inp)) (RBKB_of inp (K_k s))) = Some X \<and>
      gains ou (k, j) =
        Some (neg (mmul X (weighted_sum (transitionMatrix inp) j (numModes inp) (cn_cols (augB inp))
                             (cn_rows (augA inp)) (BKA_of inp (K_k s))))) \<and>
      feedforwards ou (k, j) =
        Some (mmul X (weighted_sum (transitionMatrix inp) j (numModes inp) (cn_cols (augB inp)) 1
                        (Bsigma_of inp (sigma_k s))))"
proof -
  from assms(1,3) obtain s s' where s: "value_function env inp (Suc k) = Some s"
    and st: "stage env inp k s = Inr s'" and "value_function env inp k = Some s'"
    and g: "\<And>j. gains ou (k, j) = gains (out s') (k, j)"
    and f: "\<And>j. feedforwards ou (k, j) = feedforwards (out s') (k, j)"
    by (rule returned_cells) blast
  from stage_result [OF st assms(2,4)] s g f show ?thesis
    by (auto simp: mixture_def gain_formula_def feedforward_formula_def)
qed

theorem C1_witness:
  "mexFunction exact_host scalar_example = Returned scalar_example_outputs \<and>
   (\<exists>s X. value_function exact_host scalar_example (Suc 0) = Some s \<and>
      pinv exact_host (weighted_sum (transitionMatrix scalar_example) 0 (numModes scalar_example)
          (cn_rows (augR scalar_example)) (cn_cols (augR scalar_example))
          (RBKB_of scalar_example (K_k s))) = Some X \<and>
      gains scalar_example_outputs (0, 0) =
        Some (neg (mmul X (weighted_sum (transitionMatrix scalar_example) 0 (numModes scalar_example)
           (cn_cols (augB scalar_example)) (cn_rows (augA scalar_example)) (BKA_of scalar_example (K_k s))))) \<and>
      feedforwards scalar_example_outputs (0, 0) =
        Some (mmul X (weighted_sum (transitionMatrix scalar_example) 0 (numModes scalar_example)
           (cn_cols (augB scalar_example)) 1 (Bsigma_of scalar_example (sigma_k s)))))"
proof -
  have 1: "mexFunction exact_host scalar_example = Returned scalar_example_outputs"
    by (rule scalar_example_run)
  have 2: "numModes scalar_example \<le> n_cols (transitionMatrix scalar_example)"
    by (simp add: scalar_example_def evals)
  have 3: "0 < nat (horizonLength scalar_example)"
    by (simp add: scalar_example_def)
  have 4: "0 < numModes scalar_example"
    by (simp add: scalar_example_def evals)
  from C1_gain_and_feedforward [OF 1 2 3 4] 1 show ?thesis by simp
qed

text \<open>
  C1 as the specification states it fails where a \<open>K\<close> of the next stage is not symmetric:
  with the terminal cost \<open>(0 1; 0 0)\<close>, \<open>A = B = I\<close> and \<open>R = 0\<close> the source's \<open>P3\<close> is
  \<open>(0 1; 1 0)\<close> and the gain \<open>(0 0; 0 -1)\<close>, the specification's \<open>P3\<close> is \<open>(0 1/2; 1/2 0)\<close>
  and its gain \<open>(0 0; 0 -2)\<close>.
\<close>

theorem C1_counterexample:
  "returned_gain (mexFunction exact_host asymmetric_terminal_example) 0 0 = Some (mat22 0 0 0 (- 1)) \<and>
   spec_gain exact_host asymmetric_terminal_example 0 0 = Some (mat22 0 0 0 (- 2)) \<and>
   returned_gain (mexFunction exact_host asymmetric_terminal_example) 0 0
     \<noteq> spec_gain exact_host asymmetric_terminal_example 0 0"
proof -
  have 1: "returned_gain (mexFunction exact_host asymmetric_terminal_example) 0 0 = Some (mat22 0 0 0 (- 1))"
    by (simp add: asymmetric_terminal_example_def evals)
  have 2: "spec_gain exact_host asymmetric_terminal_example 0 0 = Some (mat22 0 0 0 (- 2))"
    by (simp add: asymmetric_terminal_example_def evals)
  have "mat22 0 0 0 (- 1) \<noteq> mat22 0 0 0 (- 2)" by (simp add: mat22_def)
  with 1 2 show ?thesis by simp
qed




text \<open>
  C3. The source declares \<open>s1\<close> and \<open>s2\<close> with \<^verbatim>\<open>Asigma.n_cols\<close> and \<^verbatim>\<open>Bsigma.n_cols\<close> elements,
  the number of modes, where the columns added to them have \<open>n\<close> and \<open>p\<close> elements. For one
  mode, two states and one input, every precondition met, the first addition to \<open>s1\<close> raises
  the library's size error.
\<close>

theorem C3_two_states_one_mode:
  "mexFunction exact_host two_state_example =
     Failed IncompatibleDimensions (Some (allocate_outputs two_state_example))"
  by (simp add: evals)

text \<open>
  C4, as the source has it. When every state-cost matrix \<open>Q[i]\<close> is symmetric, every
  value-function matrix \<open>K[stage, mode]\<close> that an iteration of the recursion produces is
  symmetric, whatever the terminal cost and the other inputs are: \<open>P1\<close> is then a sum of
  symmetric matrices, and the subtracted product goes through \<^verbatim>\<open>symmatu\<close>.
\<close>

theorem C4_K_symmetric:
  assumes "stage_K env inp k j = Some K"
    and "numModes inp \<le> n_cols (transitionMatrix inp)"
    and "k < nat (horizonLength inp)" and "j < numModes inp"
    and "list_all symmetric (slices (augQ inp))"
  shows "symmetric K"
proof -
  from assms(1) obtain s where s: "value_function env inp k = Some s" and K: "K = slices (K_k s) ! j"
    by (auto simp: stage_K_def)
  from s [unfolded value_function_step [OF assms(3)]] obtain s0
    where st: "stage env inp k s0 = Inr s" by blast
  from stage_K_symmetric [OF st assms(2,4,5)] K show ?thesis by simp
qed

theorem C4_witness:
  "stage_K exact_host symmetric_Q_example 0 0 = Some (mat22 2 2 2 (11 / 4)) \<and>
   list_all symmetric (slices (augQ symmetric_Q_example)) \<and>
   \<not> symmetric (terminalK symmetric_Q_example) \<and>
   symmetric (mat22 2 2 2 (11 / 4))"
proof -
  have 1: "stage_K exact_host symmetric_Q_example 0 0 = Some (mat22 2 2 2 (11 / 4))"
    by (simp add: symmetric_Q_example_def evals)
  have 2: "numModes symmetric_Q_example \<le> n_cols (transitionMatrix symmetric_Q_example)"
    by (simp add: symmetric_Q_example_def evals)
  have 3: "0 < nat (horizonLength symmetric_Q_example)"
    by (simp add: symmetric_Q_example_def)
  have 4: "0 < numModes symmetric_Q_example"
    by (simp add: symmetric_Q_example_def evals)
  have 5: "list_all symmetric (slices (augQ symmetric_Q_example))"
    by (simp add: symmetric_Q_example_def evals)
  have 6: "\<not> symmetric (terminalK symmetric_Q_example)"
    by (simp add: symmetric_Q_example_def evals)
  from C4_K_symmetric [OF 1 2 3 4 5] 1 5 6 show ?thesis by simp
qed

text \<open>
  C4 as the specification states it, for a \<open>Q\<close> that need not be symmetric, fails: with
  \<open>Q = (0 1; 0 0)\<close>, zero terminal cost and \<open>A = B = R = I\<close> the matrix \<open>K\<close> of stage 0 is
  \<open>Q\<close> itself.
\<close>

theorem C4_counterexample:
  "stage_K exact_host asymmetric_Q_example 0 0 = Some (mat22 0 1 0 0) \<and>
   \<not> symmetric (mat22 0 1 0 0)"
proof -
  have 1: "stage_K exact_host asymmetric_Q_example 0 0 = Some (mat22 0 1 0 0)"
    by (simp add: asymmetric_Q_example_def evals)
  have 2: "\<not> symmetric (mat22 0 1 0 0)"
    by (simp add: evals)
  from 1 2 show ?thesis by simp
qed

text \<open>
  C5, as the source has it. For a stage \<open>k\<close> the call reaches, with \<open>(K, sigma)\<close> the state of
  stage \<open>k + 1\<close> and \<open>P1\<close>, \<open>P2\<close>, \<open>P3\<close>, \<open>s1\<close>, \<open>s2\<close> its mixtures for mode \<open>j\<close>, the new state
  is \<open>K[j] = P1 - symmatu(P2\<^sup>T pinv(P3) P2)\<close>, the upper triangle of the product alone
  being reflected, and \<open>sigma[j] = RefWeightings[:, k] + s1 - P2\<^sup>T pinv(P3) s2\<close>; the
  iteration \<open>k = 0\<close> reads column 0.
\<close>

theorem C5_value_function_update:
  assumes "value_function env inp k = Some s'"
    and "numModes inp \<le> n_cols (transitionMatrix inp)"
    and "k < nat (horizonLength inp)" and "j < numModes inp"
  shows "\<exists>s X. value_function env inp (Suc k) = Some s \<and>
      pinv env (P3 (mixture inp (K_k s) (sigma_k s) j)) = Some X \<and>
      slices (K_k s') ! j =
        msub (P1 (mixture inp (K_k s) (sigma_k s) j))
          (upper_reflected (mmul (mmul (trans (P2 (mixture inp (K_k s) (sigma_k s) j))) X)
              (P2 (mixture inp (K_k s) (sigma_k s) j)))) \<and>
      column (sigma_k s') j =
        msub (madd (column (refWeightings inp) k) (s1 (mixture inp (K_k s) (sigma_k s) j)))
          (mmul (mmul (trans (P2 (mixture inp (K_k s) (sigma_k s) j))) X)
              (s2 (mixture inp (K_k s) (sigma_k s) j)))"
proof -
  from assms(1) [unfolded value_function_step [OF assms(3)]] obtain s
    where s: "value_function env inp (Suc k) = Some s" and st: "stage env inp k s = Inr s'"
    by blast
  from stage_result [OF st assms(2,4)] s show ?thesis
    by (auto simp: K_formula_def sigma_formula_def)
qed

theorem C5_witness:
  "\<exists>s'. value_function exact_host scalar_example 0 = Some s' \<and>
     (\<exists>s X. value_function exact_host scalar_example (Suc 0) = Some s \<and>
      pinv exact_host (P3 (mixture scalar_example (K_k s) (sigma_k s) 0)) = Some X \<and>
      slices (K_k s') ! 0 =
        msub (P1 (mixture scalar_example (K_k s) (sigma_k s) 0))
          (upper_reflected (mmul (mmul (trans (P2 (mixture scalar_example (K_k s) (sigma_k s) 0))) X)
              (P2 (mixture scalar_example (K_k s) (sigma_k s) 0)))) \<and>
      column (sigma_k s') 0 =
        msub (madd (column (refWeightings scalar_example) 0) (s1 (mixture scalar_example (K_k s) (sigma_k s) 0)))
          (mmul (mmul (trans (P2 (mixture scalar_example (K_k s) (sigma_k s) 0))) X)
              (s2 (mixture scalar_example (K_k s) (sigma_k s) 0))))"
proof -
  have "value_function exact_host scalar_example 0 \<noteq> None"
    by (simp add: scalar_example_def evals)
  then obtain s' where 1: "value_function exact_host scalar_example 0 = Some s'" by blast
  have 2: "numModes scalar_example \<le> n_cols (transitionMatrix scalar_example)"
    by (simp add: scalar_example_def evals)
  have 3: "0 < nat (horizonLength scalar_example)"
    by (simp add: scalar_example_def)
  have 4: "0 < numModes scalar_example"
    by (simp add: scalar_example_def evals)
  from C5_value_function_update [OF 1 2 3 4] 1 show ?thesis by blast
qed

text \<open>
  C5 as the specification states it fails where \<open>P1\<close> is not symmetric: with
  \<open>Q = (0 1; 0 0)\<close>, zero terminal cost and \<open>A = B = R = I\<close> the source leaves
  \<open>K = P1 = (0 1; 0 0)\<close>, the specification's \<open>sym\<close> of the whole expression is
  \<open>(0 1/2; 1/2 0)\<close>.
\<close>

theorem C5_counterexample:
  "stage_K exact_host asymmetric_Q_example 0 0 = Some (mat22 0 1 0 0) \<and>
   spec_K exact_host asymmetric_Q_example 0 0 = Some (mat22 0 (1 / 2) (1 / 2) 0) \<and>
   stage_K exact_host asymmetric_Q_example 0 0 \<noteq> spec_K exact_host asymmetric_Q_example 0 0"
proof -
  have 1: "stage_K exact_host asymmetric_Q_example 0 0 = Some (mat22 0 1 0 0)"
    by (simp add: asymmetric_Q_example_def evals)
  have 2: "spec_K exact_host asymmetric_Q_example 0 0 = Some (mat22 0 (1 / 2) (1 / 2) 0)"
    by (simp add: asymmetric_Q_example_def evals)
  have "mat22 0 1 0 0 \<noteq> mat22 0 (1 / 2) (1 / 2) 0" by (simp add: mat22_def)
  with 1 2 show ?thesis by simp
qed

text \<open>
  C6, as the source has it. When the terminal cost has the size of the slices of \<open>A\<close> and
  the reference weightings have at least one column, the state before the first iteration
  (the value function of the conceptual stage \<open>horizonLength\<close>) exists and is the same for
  every mode \<open>i\<close>: \<open>K[i]\<close> is the terminal cost and \<open>sigma[i]\<close> is the last column of the
  reference weightings, the column of index \<open>n_cols - 1\<close>, whatever \<open>horizonLength\<close> is.
  That is the column of index \<open>horizonLength\<close> when the reference weightings have exactly
  \<open>horizonLength + 1\<close> columns.
\<close>

theorem C6_initial_state_last_column:
  assumes "n_rows (terminalK inp) = cn_rows (augA inp)" and "n_cols (terminalK inp) = cn_cols (augA inp)"
    and "1 \<le> n_cols (refWeightings inp)"
  shows "\<exists>s0. initial_state inp = Inr s0 \<and>
      value_function env inp (nat (horizonLength inp)) = Some s0 \<and>
      n_slices (K_k s0) = n_slices (augA inp) \<and> n_cols (sigma_k s0) = n_slices (augA inp) \<and>
      (\<forall>i<n_slices (augA inp). slices (K_k s0) ! i = terminalK inp \<and>
         column (sigma_k s0) i = column (refWeightings inp) (n_cols (refWeightings inp) - 1) \<and>
         (int (n_cols (refWeightings inp)) = horizonLength inp + 1 \<longrightarrow>
            column (sigma_k s0) i = column (refWeightings inp) (nat (horizonLength inp))))"
proof -
  let ?W = "refWeightings inp"
  let ?s0 = "\<lparr>K_k = \<lparr>cn_rows = cn_rows (augA inp), cn_cols = cn_cols (augA inp),
                 slices = replicate (numModes inp) (terminalK inp)\<rparr>,
          sigma_k = mk_mat (n_rows ?W) (numModes inp)
             (\<lambda>i j. elem (column ?W (n_cols ?W - 1)) i 0),
          out = allocate_outputs inp\<rparr>"
  have init: "initial_state inp = Inr ?s0" by (rule initial_state_Inr [OF assms])
  have col: "column (sigma_k ?s0) i = column ?W (n_cols ?W - 1)" if "i < numModes inp" for i
  proof -
    have "column (sigma_k ?s0) i = mk_mat (n_rows ?W) 1 (\<lambda>r _. elem (column ?W (n_cols ?W - 1)) r 0)"
      using that by (simp add: column_mk_mat)
    also have "\<dots> = column ?W (n_cols ?W - 1)"
      unfolding column_def [of ?W] by (rule mk_mat_cong) (simp add: elem_mk_mat)
    finally show ?thesis .
  qed
  have cell: "slices (K_k ?s0) ! i = terminalK inp \<and>
      column (sigma_k ?s0) i = column ?W (n_cols ?W - 1) \<and>
      (int (n_cols ?W) = horizonLength inp + 1 \<longrightarrow> column (sigma_k ?s0) i = column ?W (nat (horizonLength inp)))"
    if "i < n_slices (augA inp)" for i
  proof (intro conjI impI)
    from that have i: "i < numModes inp" by (simp add: numModes_def)
    then show "slices (K_k ?s0) ! i = terminalK inp" by simp
    from i show c: "column (sigma_k ?s0) i = column ?W (n_cols ?W - 1)" by (rule col)
    assume "int (n_cols ?W) = horizonLength inp + 1"
    then have "n_cols ?W - 1 = nat (horizonLength inp)" by linarith
    with c show "column (sigma_k ?s0) i = column ?W (nat (horizonLength inp))" by simp
  qed
  have sl: "n_slices (K_k ?s0) = n_slices (augA inp)"
    by (simp add: n_slices_def numModes_def)
  have sc: "n_cols (sigma_k ?s0) = n_slices (augA inp)"
    by (simp add: n_cols_mk_mat numModes_def)
  from init value_function_horizon [OF init, of env] sl sc cell show ?thesis by blast
qed

theorem C6_witness:
  "n_rows (terminalK two_mode_reference_example) = cn_rows (augA two_mode_reference_example) \<and>
   n_cols (terminalK two_mode_reference_example) = cn_cols (augA two_mode_reference_example) \<and>
   1 \<le> n_cols (refWeightings two_mode_reference_example) \<and>
   n_slices (augA two_mode_reference_example) = 2 \<and>
   int (n_cols (refWeightings two_mode_reference_example)) = horizonLength two_mode_reference_example + 1 \<and>
   (\<exists>s0. initial_state two_mode_reference_example = Inr s0 \<and>
      value_function exact_host two_mode_reference_example 2 = Some s0 \<and>
      slices (K_k s0) ! 0 = mat22 0 1 0 0 \<and> slices (K_k s0) ! 1 = mat22 0 1 0 0 \<and>
      column (sigma_k s0) 0 = \<lparr>n_rows = 2, n_cols = 1, cols = [[5, 6]]\<rparr> \<and>
      column (sigma_k s0) 1 = \<lparr>n_rows = 2, n_cols = 1, cols = [[5, 6]]\<rparr>)"
proof -
  have 1: "n_rows (terminalK two_mode_reference_example) = cn_rows (augA two_mode_reference_example)"
    by (simp add: two_mode_reference_example_def symmetric_Q_example_def evals)
  have 2: "n_cols (terminalK two_mode_reference_example) = cn_cols (augA two_mode_reference_example)"
    by (simp add: two_mode_reference_example_def symmetric_Q_example_def evals)
  have 3: "1 \<le> n_cols (refWeightings two_mode_reference_example)"
    by (simp add: two_mode_reference_example_def symmetric_Q_example_def evals)
  have 4: "n_slices (augA two_mode_reference_example) = 2"
    by (simp add: two_mode_reference_example_def symmetric_Q_example_def evals)
  have 5: "int (n_cols (refWeightings two_mode_reference_example)) = horizonLength two_mode_reference_example + 1"
    by (simp add: two_mode_reference_example_def symmetric_Q_example_def evals)
  have 6: "nat (horizonLength two_mode_reference_example) = 2"
    by (simp add: two_mode_reference_example_def symmetric_Q_example_def evals)
  have 7: "terminalK two_mode_reference_example = mat22 0 1 0 0"
    by (simp add: two_mode_reference_example_def symmetric_Q_example_def)
  have 8: "column (refWeightings two_mode_reference_example) 2 = \<lparr>n_rows = 2, n_cols = 1, cols = [[5, 6]]\<rparr>"
    by (simp add: two_mode_reference_example_def symmetric_Q_example_def evals)
  from C6_initial_state_last_column [OF 1 2 3, of exact_host] obtain s0
    where s0: "initial_state two_mode_reference_example = Inr s0"
      "value_function exact_host two_mode_reference_example (nat (horizonLength two_mode_reference_example)) = Some s0"
      and all: "\<forall>i<n_slices (augA two_mode_reference_example).
         slices (K_k s0) ! i = terminalK two_mode_reference_example \<and>
         column (sigma_k s0) i = column (refWeightings two_mode_reference_example)
            (n_cols (refWeightings two_mode_reference_example) - 1) \<and>
         (int (n_cols (refWeightings two_mode_reference_example)) = horizonLength two_mode_reference_example + 1 \<longrightarrow>
            column (sigma_k s0) i = column (refWeightings two_mode_reference_example)
              (nat (horizonLength two_mode_reference_example)))"
    by blast
  have "0 < n_slices (augA two_mode_reference_example)" "1 < n_slices (augA two_mode_reference_example)"
    using 4 by simp_all
  with all 5 have "slices (K_k s0) ! 0 = terminalK two_mode_reference_example"
    "slices (K_k s0) ! 1 = terminalK two_mode_reference_example"
    "column (sigma_k s0) 0 = column (refWeightings two_mode_reference_example)
              (nat (horizonLength two_mode_reference_example))"
    "column (sigma_k s0) 1 = column (refWeightings two_mode_reference_example)
              (nat (horizonLength two_mode_reference_example))"
    by blast+
  with s0 1 2 3 4 5 show ?thesis unfolding 6 7 8 by blast
qed

text \<open>
  C6 as the specification states it fails when the reference weightings have more than
  \<open>horizonLength + 1\<close> columns, which the preconditions allow: for the scalar system with one
  stage and the reference columns \<open>(1, 2, 4)\<close> the initial \<open>sigma\<close> is the column of index
  2, the value 4, where the column of index \<open>horizonLength\<close> holds 2.
\<close>

theorem C6_counterexample:
  "horizonLength long_reference_example + 1 \<le> int (n_cols (refWeightings long_reference_example)) \<and>
   initial_state long_reference_example =
     Inr \<lparr>K_k = one_mode (mat11 1), sigma_k = mat11 4, out = allocate_outputs long_reference_example\<rparr> \<and>
   column (mat11 4) 0 = mat11 4 \<and>
   column (refWeightings long_reference_example) (nat (horizonLength long_reference_example)) = mat11 2 \<and>
   mat11 4 \<noteq> mat11 2"
proof -
  have 1: "horizonLength long_reference_example + 1 \<le> int (n_cols (refWeightings long_reference_example))"
    by (simp add: long_reference_example_def evals)
  have 2: "initial_state long_reference_example =
     Inr \<lparr>K_k = one_mode (mat11 1), sigma_k = mat11 4, out = allocate_outputs long_reference_example\<rparr>"
    by (simp add: long_reference_example_def evals)
  have 3: "column (mat11 4) 0 = mat11 4" by (simp add: evals)
  have 4: "column (refWeightings long_reference_example) (nat (horizonLength long_reference_example)) = mat11 2"
    by (simp add: long_reference_example_def evals)
  have 5: "mat11 4 \<noteq> mat11 2" by (simp add: mat11_def)
  from 1 2 3 4 5 show ?thesis by simp
qed

text \<open>
  C7. An iteration of the stage loop reads the inputs and the state left by the iteration
  before it, that of stage \<open>k + 1\<close>, and nothing else (for the cells it writes, see C1).
  Consequently, for the same system with the horizon longer by one and any column put in
  front of the reference sequence: if that call returns, the call with the shorter horizon
  returns too (given the memory for its smaller arrays), and at every distance from the
  terminal stage both have the same gains and feedforward terms, the stage \<open>k\<close> of the
  shorter horizon being the stage \<open>k + 1\<close> of the longer one.
\<close>

theorem C7_horizon_extension:
  assumes "mexFunction env (longer_horizon inp w) = Returned ou'"
    and "0 \<le> horizonLength inp" and "1 \<le> n_cols (refWeightings inp)"
    and "mxCreateUninitNumericArray env (dimsL (allocate_outputs inp))"
    and "mxCreateUninitNumericArray env (dims (allocate_outputs inp))"
  shows "\<exists>ou. mexFunction env inp = Returned ou \<and>
      (\<forall>k j. gains ou (k, j) = gains ou' (Suc k, j) \<and>
             feedforwards ou (k, j) = feedforwards ou' (Suc k, j))"
proof -
  let ?inp' = "longer_horizon inp w"
  from assms(1) obtain s0 sf where s0: "initial_state ?inp' = Inr s0"
    and loop: "stage_loop env ?inp' s0 = Inr sf" and ou': "ou' = out sf"
    by (auto simp: mexFunction_Returned_iff)
  have n: "nat (horizonLength ?inp') = Suc (nat (horizonLength inp))"
    using assms(2) by (simp add: longer_horizon_def nat_add_distrib)
  from loop obtain u where u: "for_loop (map Suc (rev [0..<nat (horizonLength inp)])) (stage env ?inp') s0 = Inr u"
    and last: "stage env ?inp' 0 u = Inr sf"
    unfolding stage_loop_def n rev_upt_Suc_shift
    by (auto simp: for_loop_append bind_res_Inr_iff)
  have "stage_loop env inp (shorter_view inp s0) = Inr (shorter_view inp u)"
    unfolding stage_loop_def stages_longer [of _ env inp s0 w] u by simp
  with initial_state_longer [OF assms(3) s0] assms(4,5)
  have ret: "mexFunction env inp = Returned (out (shorter_view inp u))"
    by (simp add: mexFunction_def)
  have "gains (out (shorter_view inp u)) (k, j) = gains ou' (Suc k, j)"
    and "feedforwards (out (shorter_view inp u)) (k, j) = feedforwards ou' (Suc k, j)" for k j
    using stage_frame [OF last, of "Suc k" j]
    by (simp_all add: shorter_view_def drop_first_stage_def ou')
  with ret show ?thesis by blast
qed

theorem C7_witness:
  "\<exists>ou'. mexFunction exact_host (longer_horizon scalar_example (mat11 7)) = Returned ou' \<and>
     gains ou' (Suc 0, 0) = Some (mat11 (- (3 / 5))) \<and>
     (\<exists>ou. mexFunction exact_host scalar_example = Returned ou \<and>
        (\<forall>k j. gains ou (k, j) = gains ou' (Suc k, j) \<and>
               feedforwards ou (k, j) = feedforwards ou' (Suc k, j)))"
proof -
  have "\<exists>ou'. mexFunction exact_host (longer_horizon scalar_example (mat11 7)) = Returned ou' \<and>
      gains ou' (Suc 0, 0) = Some (mat11 (- (3 / 5)))"
    by (simp add: evals)
  then obtain ou' where 1: "mexFunction exact_host (longer_horizon scalar_example (mat11 7)) = Returned ou'"
    and g: "gains ou' (Suc 0, 0) = Some (mat11 (- (3 / 5)))" by blast
  have 2: "0 \<le> horizonLength scalar_example" by (simp add: evals)
  have 3: "1 \<le> n_cols (refWeightings scalar_example)" by (simp add: evals)
  have 4: "mxCreateUninitNumericArray exact_host (dimsL (allocate_outputs scalar_example))"
    by (simp add: evals)
  have 5: "mxCreateUninitNumericArray exact_host (dims (allocate_outputs scalar_example))"
    by (simp add: evals)
  from C7_horizon_extension [OF 1 2 3 4 5] 1 g show ?thesis by blast
qed

text \<open>
  C8. For one mode, the transition matrix \<open>(1)\<close>, two states and one input the source does
  not compute the gains of the standard recursion: with \<open>A = Q = I\<close>, \<open>B = (1; 0)\<close>, \<open>R = 1\<close>
  and terminal cost \<open>I\<close> the standard gain of the last stage is \<open>(-1/2  0)\<close>, and the call
  fails with the size error of C3 before it writes a gain. The scalar example of the claim
  does agree with the standard recursion (\<open>scalar_example_run\<close>,
  \<open>scalar_example_is_riccati\<close>).
\<close>

theorem C8_two_states_single_mode:
  "mexFunction exact_host two_state_example =
     Failed IncompatibleDimensions (Some (allocate_outputs two_state_example)) \<and>
   returned_gain (mexFunction exact_host two_state_example) 0 0 = None \<and>
   riccati_gain exact_host (modeA two_state_example 0) (modeB two_state_example 0)
       (modeR two_state_example 0) (terminalK two_state_example)
     = Some \<lparr>n_rows = 1, n_cols = 2, cols = [[- (1 / 2)], [0]]\<rparr>"
  by (simp add: evals)

text \<open>
  C9. For one mode, two states and one input with \<open>R = 0\<close> and \<open>B = 0\<close>, every precondition
  met, \<open>P3\<close> is the zero matrix and the recursion does not complete: the call fails with
  the size error of C3 before it calls \<open>pinv\<close>. Where the number of modes equals both
  dimensions the zero-cost call returns (\<open>scalar_zero_R_run\<close>), and the exact
  pseudo-inverse of a zero matrix is zero (\<open>pinv_exact_zeros\<close>).
\<close>

theorem C9_zero_input_cost:
  "modeR zero_R_example 0 = zeros 1 1 \<and>
   mexFunction exact_host zero_R_example =
     Failed IncompatibleDimensions (Some (allocate_outputs zero_R_example))"
  by (simp add: evals)

text \<open>
  C10. The two outputs do not depend on the parameter \<open>Qref\<close>: two calls whose inputs
  differ in \<open>Qref\<close> only have the same outcome, the same output arrays included. The
  source reads \<open>Qref\<close> from the argument list and never uses it.
\<close>

theorem C10_outputs_independent_of_Qref:
  "mexFunction env (inp\<lparr>Qref := q\<rparr>) = mexFunction env inp"
  unfolding mexFunction_def stage_loop_Qref initial_state_Qref allocate_outputs_Qref
  by (rule refl)

end
